theory Spec2Isabelle
  imports Complex_Main
begin

section \<open>Tensors and the backend operations the notebook calls\<close>

text \<open>
  The notebook \<^verbatim>\<open>variational_autoencoder.ipynb\<close> builds a convolutional variational
  autoencoder from Keras layers and backend operations (\<^verbatim>\<open>from keras import backend as K\<close>).
  The embedding keeps the notebook's functions and models the layers and the backend
  operations they call by what Keras 2 with the TensorFlow backend (the backend the notebook
  reports) computes on tensor values:

  \<^item> a rank-1 tensor is a list of numbers, a rank-2 tensor (a batch of vectors) a list of rows,
    an image (height, width, channels) a list of rows of pixels of channel values, and a
    batch of images a list of images;
  \<^item> tensor entries are real numbers: the rounding and the overflow of the backend's 32-bit
    floating-point numbers are not modelled, so \<^verbatim>\<open>K.exp\<close>, \<^verbatim>\<open>K.sqrt\<close> and the logarithm are
    the real functions;
  \<^item> an operation the backend refuses because the shapes of its operands do not fit is the
    value \<open>Inl Shape_Mismatch\<close>; the mean of an empty tensor, which the backend
    reports as not-a-number, is \<open>Inl Not_A_Number\<close>; a layer argument that Keras refuses
    (a stride of 0) is \<open>Inl Invalid_Argument\<close>.
\<close>

type_synonym vector = "real list"
type_synonym matrix = "real list list"
type_synonym image = "real list list list"

datatype error = Shape_Mismatch | Not_A_Number | Invalid_Argument

definition and_then :: "error + 'a \<Rightarrow> ('a \<Rightarrow> error + 'b) \<Rightarrow> error + 'b" where
  "and_then r f = (case r of Inl e \<Rightarrow> Inl e | Inr v \<Rightarrow> f v)"

text \<open>
  \<open>is_tensor b d t\<close>: the rows of \<open>t\<close> form a rank-2 tensor of shape \<open>(b, d)\<close>.
\<close>

definition is_tensor :: "nat \<Rightarrow> nat \<Rightarrow> matrix \<Rightarrow> bool" where
  "is_tensor b d t = (length t = b \<and> list_all (\<lambda>r. length r = d) t)"

text \<open>
  \<^verbatim>\<open>K.shape\<close> of a rank-2 tensor. A tensor without rows has no entries; the list of its rows
  stands for every shape \<open>(0, d)\<close>, and its second dimension is read as 0.
\<close>

definition K_shape :: "matrix \<Rightarrow> nat \<times> nat" where
  "K_shape t = (length t, case t of [] \<Rightarrow> 0 | r # _ \<Rightarrow> length r)"

text \<open>
  Python's arithmetic operators on two tensors work elementwise after broadcasting: two
  dimensions fit when they are equal or one of them is 1, and the dimension of size 1 is
  repeated. \<open>stretch n xs\<close> repeats the single entry of \<open>xs\<close> to length \<open>n\<close> and leaves a list
  of length \<open>n\<close> alone.
\<close>

definition fits :: "nat \<Rightarrow> nat \<Rightarrow> bool" where
  "fits m n = (m = n \<or> m = 1 \<or> n = 1)"

definition stretch :: "nat \<Rightarrow> 'a list \<Rightarrow> 'a list" where
  "stretch n xs = (if length xs = n then xs else replicate n (hd xs))"

definition broadcast1 :: "(real \<Rightarrow> real \<Rightarrow> real) \<Rightarrow> vector \<Rightarrow> vector \<Rightarrow> error + vector" where
  "broadcast1 f xs ys =
     (if fits (length xs) (length ys)
      then let n = (if length xs = 1 then length ys else length xs)
           in Inr (map2 f (stretch n xs) (stretch n ys))
      else Inl Shape_Mismatch)"

definition broadcast2 :: "(real \<Rightarrow> real \<Rightarrow> real) \<Rightarrow> matrix \<Rightarrow> matrix \<Rightarrow> error + matrix" where
  "broadcast2 f a b =
     (case (K_shape a, K_shape b) of ((ra, ca), (rb, cb)) \<Rightarrow>
        if fits ra rb \<and> fits ca cb
        then let r = (if ra = 1 then rb else ra); c = (if ca = 1 then cb else ca)
             in Inr (map2 (map2 f) (stretch r (map (stretch c) a))
                                   (stretch r (map (stretch c) b)))
        else Inl Shape_Mismatch)"

text \<open>Elementwise functions of one rank-2 tensor, and a Python scalar added to a tensor.\<close>

definition K_exp :: "matrix \<Rightarrow> matrix" where
  "K_exp t = map (map exp) t"

definition K_sqrt :: "matrix \<Rightarrow> matrix" where
  "K_sqrt t = map (map sqrt) t"

definition K_square :: "matrix \<Rightarrow> matrix" where
  "K_square t = map (map (\<lambda>v. v * v)) t"

definition scalar_plus :: "real \<Rightarrow> matrix \<Rightarrow> matrix" where
  "scalar_plus c t = map (map (\<lambda>v. c + v)) t"

definition scalar_times :: "real \<Rightarrow> vector \<Rightarrow> vector" where
  "scalar_times c v = map (\<lambda>e. c * e) v"

text \<open>\<^verbatim>\<open>K.sum(t, axis=-1)\<close> of a rank-2 tensor and \<^verbatim>\<open>K.mean\<close> of a rank-1 tensor.\<close>

definition K_sum :: "matrix \<Rightarrow> vector" where
  "K_sum t = map sum_list t"

definition K_mean :: "vector \<Rightarrow> error + real" where
  "K_mean v = (if v = [] then Inl Not_A_Number else Inr (sum_list v / real (length v)))"

text \<open>
  The source of entropy: the standard normal variates the generator hands out, in order,
  and the position of the next one. \<^verbatim>\<open>K.random_normal(shape, mean, stddev)\<close> takes as many
  variates as the shape has entries, row by row, scales them by \<open>stddev\<close>, shifts them by
  \<open>mean\<close> and moves the position on.
\<close>

record entropy =
  draws :: "nat \<Rightarrow> real"
  position :: nat

definition K_random_normal :: "nat \<times> nat \<Rightarrow> real \<Rightarrow> real \<Rightarrow> entropy \<Rightarrow> matrix \<times> entropy" where
  "K_random_normal shp mu sd s =
     (case shp of (b, d) \<Rightarrow>
        (map (\<lambda>i. map (\<lambda>j. mu + sd * draws s (position s + i * d + j)) [0..<d]) [0..<b],
         s\<lparr>position := position s + b * d\<rparr>))"

section \<open>The sampler\<close>

text \<open>
  \<^verbatim>\<open>
  def sample(args):
      t_mean, t_log_var = args
      t_sigma = K.sqrt(K.exp(t_log_var))
      epsilon = K.random_normal(shape=K.shape(t_mean), mean=0., stddev=1.)
      return t_mean + t_sigma * epsilon
  \<close>
  The function reads the entropy source and leaves it advanced, so the model takes the
  source and returns the new one with the sample.
\<close>

definition sample :: "matrix \<times> matrix \<Rightarrow> entropy \<Rightarrow> error + matrix \<times> entropy" where
  "sample args s =
     (case args of (t_mean, t_log_var) \<Rightarrow>
        let t_sigma = K_sqrt (K_exp t_log_var);
            (epsilon, s') = K_random_normal (K_shape t_mean) 0 1 s
        in and_then (broadcast2 (*) t_sigma epsilon) (\<lambda>scaled.
           and_then (broadcast2 (+) t_mean scaled) (\<lambda>t. Inr (t, s'))))"

text \<open>
  The density of the normal distribution with mean \<open>mu\<close> and variance \<open>var\<close>, the
  distribution the specification names \<open>Normal(mean, exp(log_variance))\<close>.
\<close>

definition normal_density :: "real \<Rightarrow> real \<Rightarrow> real \<Rightarrow> real" where
  "normal_density mu var x = exp (- ((x - mu)\<^sup>2) / (2 * var)) / sqrt (2 * pi * var)"

section \<open>The loss\<close>

text \<open>
  \<^verbatim>\<open>K.batch_flatten\<close> turns every image of a batch into the row of its entries, in
  row-major order.
\<close>

definition K_batch_flatten :: "image list \<Rightarrow> matrix" where
  "K_batch_flatten x = map (\<lambda>img. concat (concat img)) x"

text \<open>
  \<^verbatim>\<open>K.binary_crossentropy(target, output)\<close> of the TensorFlow backend, for an output that is
  a probability: the output is clipped to \<open>[epsilon, 1 - epsilon]\<close> (\<^verbatim>\<open>tf.clip_by_value\<close>
  with \<^verbatim>\<open>K.epsilon()\<close>, which is \<open>1e-7\<close>), turned back into a logit, and handed to
  \<^verbatim>\<open>tf.nn.sigmoid_cross_entropy_with_logits\<close>, which computes
  \<open>max(x, 0) - x * z + log(1 + exp(-abs(x)))\<close> for the logit \<open>x\<close> and the label \<open>z\<close>.
  The operation is elementwise on two tensors.
\<close>

definition K_epsilon :: real where
  "K_epsilon = 1 / 10 ^ 7"

definition clip_by_value :: "real \<Rightarrow> real \<Rightarrow> real \<Rightarrow> real" where
  "clip_by_value v lo hi = max (min v hi) lo"

definition sigmoid_cross_entropy_with_logits :: "real \<Rightarrow> real \<Rightarrow> real" where
  "sigmoid_cross_entropy_with_logits z x = max x 0 - x * z + ln (1 + exp (- \<bar>x\<bar>))"

definition binary_crossentropy :: "real \<Rightarrow> real \<Rightarrow> real" where
  "binary_crossentropy target output =
     (let p = clip_by_value output K_epsilon (1 - K_epsilon);
          logit = ln (p / (1 - p))
      in sigmoid_cross_entropy_with_logits target logit)"

definition K_binary_crossentropy :: "matrix \<Rightarrow> matrix \<Rightarrow> error + matrix" where
  "K_binary_crossentropy target output = broadcast2 binary_crossentropy target output"

text \<open>
  The tensors the notebook binds at module level when it composes the model:
  \<^verbatim>\<open>
  x = layers.Input(shape=image_shape)
  t_mean, t_log_var = encoder(x)
  t = sampler([t_mean, t_log_var])
  t_decoded = decoder(t)
  \<close>
  A \<open>scope\<close> holds the values these names have when the loss is evaluated.
\<close>

record scope =
  x_of :: "image list"
  t_mean_of :: matrix
  t_log_var_of :: matrix
  t_of :: matrix
  t_decoded_of :: "image list"

text \<open>
  \<^verbatim>\<open>
  def neg_variational_lower_bound(x, t_decoded):
      # Reconstruction loss
      rc_loss = K.sum(K.binary_crossentropy(
          K.batch_flatten(x),
          K.batch_flatten(t_decoded)), axis=-1)

      # Regularization term (KL divergence)
      kl_loss = -0.5 * K.sum(1 + t_log_var \
                               - K.square(t_mean) \
                               - K.exp(t_log_var), axis=-1)

      # Average over mini-batch
      return K.mean(rc_loss + kl_loss)
  \<close>
  The parameters are \<open>x\<close> and \<open>t_decoded\<close>; \<open>t_mean\<close> and \<open>t_log_var\<close> are not
  parameters and not local, so the function reads them from the enclosing scope.
\<close>

definition rc_loss :: "image list \<Rightarrow> image list \<Rightarrow> error + vector" where
  "rc_loss x t_decoded =
     and_then (K_binary_crossentropy (K_batch_flatten x) (K_batch_flatten t_decoded))
       (\<lambda>ce. Inr (K_sum ce))"

definition kl_loss :: "scope \<Rightarrow> error + vector" where
  "kl_loss sc =
     and_then (broadcast2 (-) (scalar_plus 1 (t_log_var_of sc)) (K_square (t_mean_of sc)))
       (\<lambda>a. and_then (broadcast2 (-) a (K_exp (t_log_var_of sc)))
       (\<lambda>b. Inr (scalar_times (- 0.5) (K_sum b))))"

definition neg_variational_lower_bound :: "scope \<Rightarrow> image list \<Rightarrow> image list \<Rightarrow> error + real" where
  "neg_variational_lower_bound sc x t_decoded =
     and_then (rc_loss x t_decoded)
       (\<lambda>rc. and_then (kl_loss sc)
       (\<lambda>kl. and_then (broadcast1 (+) rc kl) K_mean))"

text \<open>
  The quantities the specification compares the loss with: the binary cross-entropy of a
  label \<open>z\<close> and a probability \<open>p\<close>, and the closed form of the Kullback-Leibler
  divergence of the normal distribution with mean \<open>mu\<close> and variance \<open>var\<close> from the
  standard normal distribution.
\<close>

definition cross_entropy_spec :: "real \<Rightarrow> real \<Rightarrow> real" where
  "cross_entropy_spec z p = - (z * ln p + (1 - z) * ln (1 - p))"

definition kl_normal_standard_spec :: "real \<Rightarrow> real \<Rightarrow> real" where
  "kl_normal_standard_spec mu var = (var + mu\<^sup>2 - 1 - ln var) / 2"

section \<open>Layers\<close>

text \<open>
  The Keras layers the notebook stacks, each as the function it computes on one example.
  The weights of a layer are what Keras creates when the layer is first called and what
  training changes; the functions take them as an argument. A kernel is indexed as Keras
  stores it: \<open>(input, unit)\<close> for \<^verbatim>\<open>Dense\<close>, \<open>(row, column, input channel, filter)\<close> for
  \<^verbatim>\<open>Conv2D\<close> and \<open>(row, column, filter, input channel)\<close> for \<^verbatim>\<open>Conv2DTranspose\<close>.
\<close>

datatype activation = Linear | Relu | Sigmoid

definition sigmoid :: "real \<Rightarrow> real" where
  "sigmoid v = 1 / (1 + exp (- v))"

fun activate :: "activation \<Rightarrow> real \<Rightarrow> real" where
  "activate Linear v = v"
| "activate Relu v = max v 0"
| "activate Sigmoid v = sigmoid v"

record dense_weights =
  dense_kernel :: "nat \<Rightarrow> nat \<Rightarrow> real"
  dense_bias :: "nat \<Rightarrow> real"

record conv_weights =
  conv_kernel :: "nat \<Rightarrow> nat \<Rightarrow> nat \<Rightarrow> nat \<Rightarrow> real"
  conv_bias :: "nat \<Rightarrow> real"

definition height :: "image \<Rightarrow> nat" where
  "height x = length x"

definition width :: "image \<Rightarrow> nat" where
  "width x = (case x of [] \<Rightarrow> 0 | row # _ \<Rightarrow> length row)"

definition channels :: "image \<Rightarrow> nat" where
  "channels x = (case x of [] \<Rightarrow> 0 | row # _ \<Rightarrow> (case row of [] \<Rightarrow> 0 | px # _ \<Rightarrow> length px))"

definition has_shape :: "nat \<times> nat \<times> nat \<Rightarrow> image \<Rightarrow> bool" where
  "has_shape shp x =
     (case shp of (h, w, c) \<Rightarrow>
        length x = h \<and> list_all (\<lambda>row. length row = w \<and> list_all (\<lambda>px. length px = c) row) x)"

text \<open>The entry of an image at a position, 0 where the position is in the padding.\<close>

definition padded :: "image \<Rightarrow> int \<Rightarrow> int \<Rightarrow> nat \<Rightarrow> real" where
  "padded x i j c =
     (if 0 \<le> i \<and> i < int (height x) \<and> 0 \<le> j \<and> j < int (width x)
      then x ! nat i ! nat j ! c else 0)"

text \<open>
  \<^verbatim>\<open>Dense(units, activation)\<close>: \<open>activation(dot(input, kernel) + bias)\<close>.
\<close>

definition Dense :: "nat \<Rightarrow> activation \<Rightarrow> dense_weights \<Rightarrow> vector \<Rightarrow> vector" where
  "Dense units act w x =
     map (\<lambda>u. activate act ((\<Sum>i\<leftarrow>[0..<length x]. x ! i * dense_kernel w i u) + dense_bias w u))
       [0..<units]"

text \<open>\<^verbatim>\<open>Flatten()\<close>: the entries of the example in row-major order.\<close>

definition Flatten :: "image \<Rightarrow> vector" where
  "Flatten x = concat (concat x)"

text \<open>
  \<^verbatim>\<open>Reshape(target_shape)\<close>: the entries in row-major order in the new shape; Keras refuses
  a target shape whose size is not the size of the input.
\<close>

definition Reshape :: "nat \<times> nat \<times> nat \<Rightarrow> vector \<Rightarrow> error + image" where
  "Reshape target_shape x =
     (case target_shape of (h, w, c) \<Rightarrow>
        if length x = h * w * c
        then Inr (map (\<lambda>i. map (\<lambda>j. map (\<lambda>k. x ! ((i * w + j) * c + k)) [0..<c]) [0..<w]) [0..<h])
        else Inl Shape_Mismatch)"

text \<open>
  The notebook creates every convolution with \<^verbatim>\<open>padding='same'\<close>. With this padding a
  convolution with stride \<open>s\<close> turns a dimension of size \<open>n\<close> into one of size
  \<open>ceil (n / s)\<close>; the input is padded with zeros, \<open>max ((out - 1) * s + k - n, 0)\<close> in all
  for a kernel of size \<open>k\<close>, the smaller half before the first entry.
\<close>

definition same_output_length :: "nat \<Rightarrow> nat \<Rightarrow> nat" where
  "same_output_length n stride = (n + stride - 1) div stride"

definition same_pad_before :: "nat \<Rightarrow> nat \<Rightarrow> nat \<Rightarrow> nat" where
  "same_pad_before n k stride = ((same_output_length n stride - 1) * stride + k - n) div 2"

text \<open>
  \<^verbatim>\<open>Conv2D(filters, kernel_size, padding='same', activation=..., strides=(s, s))\<close>.
\<close>

definition Conv2D :: "nat \<Rightarrow> nat \<Rightarrow> nat \<Rightarrow> activation \<Rightarrow> conv_weights \<Rightarrow> image \<Rightarrow> error + image" where
  "Conv2D filters kernel_size stride act w x =
     (if stride = 0 then Inl Invalid_Argument
      else
        let pad_top = same_pad_before (height x) kernel_size stride;
            pad_left = same_pad_before (width x) kernel_size stride
        in Inr (map (\<lambda>i. map (\<lambda>j. map (\<lambda>f.
                  activate act
                    ((\<Sum>di\<leftarrow>[0..<kernel_size]. \<Sum>dj\<leftarrow>[0..<kernel_size]. \<Sum>c\<leftarrow>[0..<channels x].
                        padded x (int (i * stride + di) - int pad_top)
                                 (int (j * stride + dj) - int pad_left) c
                          * conv_kernel w di dj c f)
                     + conv_bias w f))
                  [0..<filters])
                  [0..<same_output_length (width x) stride])
                  [0..<same_output_length (height x) stride]))"

text \<open>
  \<^verbatim>\<open>Conv2DTranspose(filters, kernel_size, padding='same', activation=..., strides=(s, s))\<close>:
  the transpose of the convolution above. A dimension of size \<open>n\<close> becomes one of size
  \<open>n * s\<close>, and the input entry at \<open>i\<close> contributes through the kernel entry \<open>di\<close> to the
  output entry \<open>i * s + di - pad\<close>, where \<open>pad\<close> is the padding before the first entry of the
  convolution that goes from size \<open>n * s\<close> back to \<open>n\<close>.
\<close>

definition Conv2DTranspose ::
    "nat \<Rightarrow> nat \<Rightarrow> nat \<Rightarrow> activation \<Rightarrow> conv_weights \<Rightarrow> image \<Rightarrow> error + image" where
  "Conv2DTranspose filters kernel_size stride act w x =
     (if stride = 0 then Inl Invalid_Argument
      else
        let pad = (kernel_size - stride) div 2
        in Inr (map (\<lambda>u. map (\<lambda>v. map (\<lambda>f.
                  activate act
                    ((\<Sum>i\<leftarrow>[0..<height x]. \<Sum>j\<leftarrow>[0..<width x].
                      \<Sum>di\<leftarrow>[0..<kernel_size]. \<Sum>dj\<leftarrow>[0..<kernel_size].
                        if i * stride + di = u + pad \<and> j * stride + dj = v + pad
                        then (\<Sum>c\<leftarrow>[0..<channels x]. x ! i ! j ! c * conv_kernel w di dj f c)
                        else 0)
                     + conv_bias w f))
                  [0..<filters])
                  [0..<width x * stride])
                  [0..<height x * stride]))"

text \<open>
  A model applied to a batch applies its layers to every example; it fails when it fails
  on an example.
\<close>

fun collect :: "(error + 'a) list \<Rightarrow> error + 'a list" where
  "collect [] = Inr []"
| "collect (r # rs) = and_then r (\<lambda>v. and_then (collect rs) (\<lambda>vs. Inr (v # vs)))"

section \<open>The encoder, the decoder and the composed model\<close>

text \<open>
  \<^verbatim>\<open>
  # Dimensions of MNIST images
  image_shape = (28, 28, 1)

  # Dimension of latent space
  latent_dim = 2

  # Mini-batch size for training
  batch_size = 128
  \<close>
\<close>

definition image_shape :: "nat \<times> nat \<times> nat" where
  "image_shape = (28, 28, 1)"

definition latent_dim :: nat where
  "latent_dim = 2"

definition batch_size :: nat where
  "batch_size = 128"

text \<open>
  \<^verbatim>\<open>
  def create_encoder():
      encoder_iput = layers.Input(shape=image_shape)

      x = layers.Conv2D(32, 3, padding='same', activation='relu')(encoder_iput)
      x = layers.Conv2D(64, 3, padding='same', activation='relu', strides=(2, 2))(x)
      x = layers.Conv2D(64, 3, padding='same', activation='relu')(x)
      x = layers.Conv2D(64, 3, padding='same', activation='relu')(x)
      x = layers.Flatten()(x)
      x = layers.Dense(32, activation='relu')(x)

      t_mean = layers.Dense(latent_dim)(x)
      t_log_var = layers.Dense(latent_dim)(x)

      return Model(encoder_iput, [t_mean, t_log_var], name='encoder')
  \<close>
  \<open>encoder_graph\<close> is the graph between the input and the two outputs, on one example;
  the model refuses an example that has not the shape of its input layer.
\<close>

record encoder_weights =
  enc_conv_1 :: conv_weights
  enc_conv_2 :: conv_weights
  enc_conv_3 :: conv_weights
  enc_conv_4 :: conv_weights
  enc_dense :: dense_weights
  enc_mean :: dense_weights
  enc_log_var :: dense_weights

definition encoder_graph :: "encoder_weights \<Rightarrow> image \<Rightarrow> error + vector \<times> vector" where
  "encoder_graph w encoder_iput =
     (if \<not> has_shape image_shape encoder_iput then Inl Shape_Mismatch
      else
        and_then (Conv2D 32 3 1 Relu (enc_conv_1 w) encoder_iput) (\<lambda>x.
        and_then (Conv2D 64 3 2 Relu (enc_conv_2 w) x) (\<lambda>x.
        and_then (Conv2D 64 3 1 Relu (enc_conv_3 w) x) (\<lambda>x.
        and_then (Conv2D 64 3 1 Relu (enc_conv_4 w) x) (\<lambda>x.
          let x = Flatten x;
              x = Dense 32 Relu (enc_dense w) x;
              t_mean = Dense latent_dim Linear (enc_mean w) x;
              t_log_var = Dense latent_dim Linear (enc_log_var w) x
          in Inr (t_mean, t_log_var))))))"

definition create_encoder :: "encoder_weights \<Rightarrow> image list \<Rightarrow> error + matrix \<times> matrix" where
  "create_encoder w images =
     and_then (collect (map (encoder_graph w) images))
       (\<lambda>outputs. Inr (map fst outputs, map snd outputs))"

text \<open>
  \<^verbatim>\<open>
  def create_decoder():
      decoder_input = layers.Input(shape=(latent_dim,))

      x = layers.Dense(12544, activation='relu')(decoder_input)
      x = layers.Reshape((14, 14, 64))(x)
      x = layers.Conv2DTranspose(32, 3, padding='same', activation='relu', strides=(2, 2))(x)
      x = layers.Conv2D(1, 3, padding='same', activation='sigmoid')(x)

      return Model(decoder_input, x, name='decoder')
  \<close>
\<close>

record decoder_weights =
  dec_dense :: dense_weights
  dec_conv_transpose :: conv_weights
  dec_conv :: conv_weights

definition decoder_graph :: "decoder_weights \<Rightarrow> vector \<Rightarrow> error + image" where
  "decoder_graph w decoder_input =
     (if length decoder_input \<noteq> latent_dim then Inl Shape_Mismatch
      else
        let x = Dense 12544 Relu (dec_dense w) decoder_input
        in and_then (Reshape (14, 14, 64) x) (\<lambda>x.
           and_then (Conv2DTranspose 32 3 2 Relu (dec_conv_transpose w) x) (\<lambda>x.
           Conv2D 1 3 1 Sigmoid (dec_conv w) x)))"

definition create_decoder :: "decoder_weights \<Rightarrow> matrix \<Rightarrow> error + image list" where
  "create_decoder w latents = collect (map (decoder_graph w) latents)"

text \<open>
  \<^verbatim>\<open>
  def create_sampler():
      return layers.Lambda(sample, name='sampler')

  encoder = create_encoder()
  decoder = create_decoder()
  sampler = create_sampler()

  x = layers.Input(shape=image_shape)
  t_mean, t_log_var = encoder(x)
  t = sampler([t_mean, t_log_var])
  t_decoded = decoder(t)

  vae = Model(x, t_decoded, name='vae')
  \<close>
\<close>

definition create_sampler :: "matrix \<times> matrix \<Rightarrow> entropy \<Rightarrow> error + matrix \<times> entropy" where
  "create_sampler = sample"

definition vae ::
    "encoder_weights \<times> decoder_weights \<Rightarrow> image list \<Rightarrow> entropy \<Rightarrow> error + image list \<times> entropy" where
  "vae w x s =
     (case w of (encoder_w, decoder_w) \<Rightarrow>
        and_then (create_encoder encoder_w x) (\<lambda>(t_mean, t_log_var).
        and_then (create_sampler (t_mean, t_log_var) s) (\<lambda>(t, s').
        and_then (create_decoder decoder_w t) (\<lambda>t_decoded. Inr (t_decoded, s')))))"

section \<open>Facts about tensors\<close>

lemma is_tensor_row: "is_tensor b d t \<Longrightarrow> i < b \<Longrightarrow> length (t ! i) = d"
  by (simp add: is_tensor_def list_all_length)

lemma stretch_same: "length xs = n \<Longrightarrow> stretch n xs = xs"
  by (simp add: stretch_def)

lemma map_stretch_rows: "list_all (\<lambda>r. length r = d) t \<Longrightarrow> map (stretch d) t = t"
  by (induction t) (simp_all add: stretch_same)

lemma K_shape_tensor: "is_tensor b d t \<Longrightarrow> 0 < b \<Longrightarrow> K_shape t = (b, d)"
  by (cases t) (auto simp: K_shape_def is_tensor_def)

lemma K_shape_empty: "is_tensor 0 d t \<Longrightarrow> K_shape t = (0, 0)"
  by (simp add: K_shape_def is_tensor_def)

lemma broadcast2_same_shape:
  assumes "is_tensor b d x" and "is_tensor b d y"
  shows "broadcast2 f x y = Inr (map2 (map2 f) x y)"
proof (cases "b = 0")
  case True
  with assms show ?thesis
    by (simp add: broadcast2_def K_shape_def is_tensor_def fits_def stretch_def)
next
  case False
  with assms have sh: "K_shape x = (b, d)" "K_shape y = (b, d)"
    by (simp_all add: K_shape_tensor)
  from assms have rows: "map (stretch d) x = x" "map (stretch d) y = y"
    by (simp_all add: is_tensor_def map_stretch_rows)
  from assms have len: "length x = b" "length y = b"
    by (simp_all add: is_tensor_def)
  show ?thesis
  proof (cases "b = 1")
    case True
    with sh rows len show ?thesis
      by (cases "d = 1") (simp_all add: broadcast2_def fits_def stretch_same)
  next
    case False
    with sh rows len show ?thesis
      by (cases "d = 1") (simp_all add: broadcast2_def fits_def stretch_same)
  qed
qed

lemma is_tensor_map2:
  "is_tensor b d x \<Longrightarrow> is_tensor b d y \<Longrightarrow> is_tensor b d (map2 (map2 f) x y)"
  by (auto simp: is_tensor_def list_all_length)

lemma is_tensor_map: "is_tensor b d x \<Longrightarrow> is_tensor b d (map (map f) x)"
  by (auto simp: is_tensor_def list_all_length)

lemma nth_map2_rows:
  "is_tensor b d x \<Longrightarrow> is_tensor b d y \<Longrightarrow> i < b \<Longrightarrow> j < d \<Longrightarrow>
   map2 (map2 f) x y ! i ! j = f (x ! i ! j) (y ! i ! j)"
  by (simp add: is_tensor_def list_all_length)

lemma is_tensor_random_normal: "is_tensor b d (fst (K_random_normal (b, d) mu sd s))"
  by (simp add: K_random_normal_def is_tensor_def list_all_length)

lemma nth_random_normal:
  "i < b \<Longrightarrow> j < d \<Longrightarrow>
   fst (K_random_normal (b, d) mu sd s) ! i ! j = mu + sd * draws s (position s + i * d + j)"
  by (simp add: K_random_normal_def)

section \<open>Facts about the layers\<close>

lemma Conv2D_shape:
  "0 < stride \<Longrightarrow> \<exists>y. Conv2D filters k stride act w x = Inr y \<and>
     has_shape (same_output_length (height x) stride, same_output_length (width x) stride, filters) y"
  by (simp add: Conv2D_def Let_def has_shape_def list_all_length)

lemma Conv2DTranspose_shape:
  "0 < stride \<Longrightarrow> \<exists>y. Conv2DTranspose filters k stride act w x = Inr y \<and>
     has_shape (height x * stride, width x * stride, filters) y"
  by (simp add: Conv2DTranspose_def Let_def has_shape_def list_all_length)

lemma has_shape_height: "has_shape (h, w, c) x \<Longrightarrow> height x = h"
  by (simp add: has_shape_def height_def)

lemma has_shape_width: "has_shape (h, w, c) x \<Longrightarrow> 0 < h \<Longrightarrow> width x = w"
  by (cases x) (simp_all add: has_shape_def width_def)

lemma length_concat_rows: "list_all (\<lambda>r. length r = n) xs \<Longrightarrow> length (concat xs) = length xs * n"
  by (induction xs) simp_all

lemma length_Flatten: "has_shape (h, w, c) x \<Longrightarrow> length (Flatten x) = h * w * c"
proof -
  assume s: "has_shape (h, w, c) x"
  then have rows: "list_all (\<lambda>row. length row = w) x"
    by (simp add: has_shape_def list_all_length)
  from s have "list_all (\<lambda>px. length px = c) (concat x)"
    by (auto simp: has_shape_def list_all_iff)
  then have "length (concat (concat x)) = length (concat x) * c"
    by (rule length_concat_rows)
  also from rows have "length (concat x) = length x * w"
    by (rule length_concat_rows)
  also from s have "length x = h"
    by (simp add: has_shape_def)
  finally show ?thesis by (simp add: Flatten_def)
qed

lemma length_Dense: "length (Dense units act w x) = units"
  by (simp add: Dense_def)

lemma Reshape_shape:
  "length x = h * w * c \<Longrightarrow> \<exists>y. Reshape (h, w, c) x = Inr y \<and> has_shape (h, w, c) y"
  by (simp add: Reshape_def has_shape_def list_all_length)

lemma sigmoid_range: "0 < sigmoid v \<and> sigmoid v < 1"
proof -
  have "0 < exp (- v)" by simp
  then show ?thesis by (simp add: sigmoid_def add_pos_pos)
qed

lemma Conv2D_Sigmoid_range:
  assumes "Conv2D filters k stride Sigmoid w x = Inr y"
  shows "\<forall>row\<in>set y. \<forall>px\<in>set row. \<forall>v\<in>set px. 0 \<le> v \<and> v \<le> 1"
proof -
  have "0 \<le> sigmoid v \<and> sigmoid v \<le> 1" for v
    using sigmoid_range [of v] by simp
  with assms show ?thesis
    by (auto simp: Conv2D_def Let_def split: if_splits)
qed

lemma collect_all:
  assumes "\<forall>x\<in>set xs. \<exists>y. f x = Inr y \<and> P y"
  shows "\<exists>ys. collect (map f xs) = Inr ys \<and> length ys = length xs \<and> list_all P ys"
  using assms
proof (induction xs)
  case Nil
  then show ?case by simp
next
  case (Cons x xs)
  then obtain y ys where "f x = Inr y" "P y" "collect (map f xs) = Inr ys"
    "length ys = length xs" "list_all P ys"
    by auto
  then show ?case by (simp add: and_then_def)
qed

lemma encoder_graph_heads:
  assumes "has_shape image_shape x"
  shows "\<exists>m v. encoder_graph w x = Inr (m, v) \<and> length m = latent_dim \<and> length v = latent_dim"
proof -
  obtain a where a: "Conv2D 32 3 1 Relu (enc_conv_1 w) x = Inr a"
    using Conv2D_shape [of 1 32 3 Relu "enc_conv_1 w" x] by auto
  obtain b where b: "Conv2D 64 3 2 Relu (enc_conv_2 w) a = Inr b"
    using Conv2D_shape [of 2 64 3 Relu "enc_conv_2 w" a] by auto
  obtain c where c: "Conv2D 64 3 1 Relu (enc_conv_3 w) b = Inr c"
    using Conv2D_shape [of 1 64 3 Relu "enc_conv_3 w" b] by auto
  obtain d where d: "Conv2D 64 3 1 Relu (enc_conv_4 w) c = Inr d"
    using Conv2D_shape [of 1 64 3 Relu "enc_conv_4 w" c] by auto
  from assms show ?thesis
    by (simp add: encoder_graph_def a b c d and_then_def Let_def length_Dense del: One_nat_def)
qed

lemma same_output_length_values:
  "same_output_length 28 1 = 28" "same_output_length 28 2 = 14" "same_output_length 14 1 = 14"
  by (simp_all add: same_output_length_def)

lemma Conv2D_shape_of:
  assumes "has_shape (h, wd, c) x" and "0 < h" and "0 < stride"
  shows "\<exists>y. Conv2D filters k stride act w x = Inr y \<and>
     has_shape (same_output_length h stride, same_output_length wd stride, filters) y"
  using Conv2D_shape [OF assms(3), of filters k act w x]
    has_shape_height [OF assms(1)] has_shape_width [OF assms(1,2)] by simp

lemma Conv2DTranspose_shape_of:
  assumes "has_shape (h, wd, c) x" and "0 < h" and "0 < stride"
  shows "\<exists>y. Conv2DTranspose filters k stride act w x = Inr y \<and>
     has_shape (h * stride, wd * stride, filters) y"
  using Conv2DTranspose_shape [OF assms(3), of filters k act w x]
    has_shape_height [OF assms(1)] has_shape_width [OF assms(1,2)] by simp

lemma decoder_graph_steps:
  assumes t: "length t = latent_dim"
  shows "\<exists>g u y. length (Dense 12544 Relu (dec_dense w) t) = 14 * 14 * 64 \<and>
      Reshape (14, 14, 64) (Dense 12544 Relu (dec_dense w) t) = Inr g \<and> has_shape (14, 14, 64) g \<and>
      Conv2DTranspose 32 3 2 Relu (dec_conv_transpose w) g = Inr u \<and> has_shape (28, 28, 32) u \<and>
      Conv2D 1 3 1 Sigmoid (dec_conv w) u = Inr y \<and> has_shape (28, 28, 1) y \<and>
      decoder_graph w t = Inr y"
proof -
  have len: "length (Dense 12544 Relu (dec_dense w) t) = 14 * 14 * 64"
    by (simp add: length_Dense)
  from Reshape_shape [OF len] obtain g where
    g: "Reshape (14, 14, 64) (Dense 12544 Relu (dec_dense w) t) = Inr g" "has_shape (14, 14, 64) g"
    by blast
  from Conv2DTranspose_shape_of [OF g(2), of 2 32 3 Relu "dec_conv_transpose w"] obtain u where
    u: "Conv2DTranspose 32 3 2 Relu (dec_conv_transpose w) g = Inr u" "has_shape (28, 28, 32) u"
    by auto
  have "\<exists>y. Conv2D 1 3 1 Sigmoid (dec_conv w) u = Inr y \<and> has_shape (28, 28, 1) y"
    using Conv2D_shape_of [OF u(2), of 1 1 3 Sigmoid "dec_conv w"]
    by (simp add: same_output_length_values del: One_nat_def)
  then obtain y where
    y: "Conv2D 1 3 1 Sigmoid (dec_conv w) u = Inr y" "has_shape (28, 28, 1) y"
    by blast
  have "decoder_graph w t = Inr y"
    using t by (simp add: decoder_graph_def Let_def g(1) u(1) y(1) and_then_def del: One_nat_def)
  with len g u y show ?thesis by blast
qed

lemma encoder_graph_steps:
  assumes x: "has_shape (28, 28, 1) x"
  shows "\<exists>a b c d. Conv2D 32 3 1 Relu (enc_conv_1 w) x = Inr a \<and> has_shape (28, 28, 32) a \<and>
      Conv2D 64 3 2 Relu (enc_conv_2 w) a = Inr b \<and> has_shape (14, 14, 64) b \<and>
      Conv2D 64 3 1 Relu (enc_conv_3 w) b = Inr c \<and> has_shape (14, 14, 64) c \<and>
      Conv2D 64 3 1 Relu (enc_conv_4 w) c = Inr d \<and> has_shape (14, 14, 64) d \<and>
      length (Flatten d) = 12544"
proof -
  have "\<exists>a. Conv2D 32 3 1 Relu (enc_conv_1 w) x = Inr a \<and> has_shape (28, 28, 32) a"
    using Conv2D_shape_of [OF x, of 1 32 3 Relu "enc_conv_1 w"]
    by (simp add: same_output_length_values del: One_nat_def)
  then obtain a where
    a: "Conv2D 32 3 1 Relu (enc_conv_1 w) x = Inr a" "has_shape (28, 28, 32) a"
    by blast
  have "\<exists>b. Conv2D 64 3 2 Relu (enc_conv_2 w) a = Inr b \<and> has_shape (14, 14, 64) b"
    using Conv2D_shape_of [OF a(2), of 2 64 3 Relu "enc_conv_2 w"]
    by (simp add: same_output_length_values del: One_nat_def)
  then obtain b where
    b: "Conv2D 64 3 2 Relu (enc_conv_2 w) a = Inr b" "has_shape (14, 14, 64) b"
    by blast
  have "\<exists>c. Conv2D 64 3 1 Relu (enc_conv_3 w) b = Inr c \<and> has_shape (14, 14, 64) c"
    using Conv2D_shape_of [OF b(2), of 1 64 3 Relu "enc_conv_3 w"]
    by (simp add: same_output_length_values del: One_nat_def)
  then obtain c where
    c: "Conv2D 64 3 1 Relu (enc_conv_3 w) b = Inr c" "has_shape (14, 14, 64) c"
    by blast
  have "\<exists>d. Conv2D 64 3 1 Relu (enc_conv_4 w) c = Inr d \<and> has_shape (14, 14, 64) d"
    using Conv2D_shape_of [OF c(2), of 1 64 3 Relu "enc_conv_4 w"]
    by (simp add: same_output_length_values del: One_nat_def)
  then obtain d where
    d: "Conv2D 64 3 1 Relu (enc_conv_4 w) c = Inr d" "has_shape (14, 14, 64) d"
    by blast
  from length_Flatten [OF d(2)] have "length (Flatten d) = 12544" by simp
  with a b c d show ?thesis by blast
qed

section \<open>The sampler returns the reparameterized sample\<close>

lemma density_reparam:
  "normal_density m (exp lv) (m + sqrt (exp lv) * e) * sqrt (exp lv) = normal_density 0 1 e"
proof -
  have a: "(m + sqrt (exp lv) * e - m)\<^sup>2 = exp lv * e\<^sup>2"
    by (simp add: power_mult_distrib)
  have b: "sqrt (2 * pi * exp lv) = sqrt (2 * pi) * sqrt (exp lv)"
    by (simp add: real_sqrt_mult)
  have c: "- (exp lv * e\<^sup>2) / (2 * exp lv) = - (e\<^sup>2) / 2"
    by simp
  show ?thesis
    unfolding normal_density_def a b c by simp
qed

lemma sample_same_shape:
  assumes m: "is_tensor b d t_mean" and v: "is_tensor b d t_log_var"
  shows "sample (t_mean, t_log_var) s =
    Inr (map2 (map2 (+)) t_mean
           (map2 (map2 (*)) (K_sqrt (K_exp t_log_var)) (fst (K_random_normal (K_shape t_mean) 0 1 s))),
         snd (K_random_normal (K_shape t_mean) 0 1 s))"
proof -
  let ?eps = "fst (K_random_normal (K_shape t_mean) 0 1 s)"
  have e: "is_tensor b d ?eps"
  proof (cases "b = 0")
    case True
    with m show ?thesis by (simp add: K_shape_empty K_random_normal_def is_tensor_def)
  next
    case False
    with m show ?thesis by (simp add: K_shape_tensor is_tensor_random_normal)
  qed
  have sg: "is_tensor b d (K_sqrt (K_exp t_log_var))"
    using v by (simp add: K_sqrt_def K_exp_def is_tensor_map)
  have sc: "broadcast2 (*) (K_sqrt (K_exp t_log_var)) ?eps
      = Inr (map2 (map2 (*)) (K_sqrt (K_exp t_log_var)) ?eps)"
    using sg e by (rule broadcast2_same_shape)
  have ad: "broadcast2 (+) t_mean (map2 (map2 (*)) (K_sqrt (K_exp t_log_var)) ?eps)
      = Inr (map2 (map2 (+)) t_mean (map2 (map2 (*)) (K_sqrt (K_exp t_log_var)) ?eps))"
    using m is_tensor_map2 [OF sg e] by (rule broadcast2_same_shape)
  show ?thesis
    by (simp add: sample_def Let_def split_beta sc ad and_then_def)
qed

text \<open>
  C1. For mean and log-variance tensors of one shape and the tensor \<open>epsilon\<close> of standard
  normal variates that the entropy source hands out, the sampler returns a tensor of that
  shape whose every entry is \<open>mean + sqrt (exp log_variance) * epsilon\<close>. The density of
  \<open>Normal(mean, exp log_variance)\<close> at the returned entry, scaled by the standard deviation,
  is the standard normal density at the drawn variate: the returned entry is the image of a
  standard normal variate under an increasing affine map, and so it is distributed
  \<open>Normal(mean, exp log_variance)\<close>.
\<close>

theorem sample_reparameterization:
  assumes m: "is_tensor b d t_mean" and v: "is_tensor b d t_log_var"
    and eps: "fst (K_random_normal (K_shape t_mean) 0 1 s) = epsilon"
  shows "\<exists>t s'. sample (t_mean, t_log_var) s = Inr (t, s') \<and> is_tensor b d t \<and>
    (\<forall>i<b. \<forall>j<d.
       epsilon ! i ! j = draws s (position s + i * d + j) \<and>
       t ! i ! j = t_mean ! i ! j + sqrt (exp (t_log_var ! i ! j)) * epsilon ! i ! j \<and>
       normal_density (t_mean ! i ! j) (exp (t_log_var ! i ! j)) (t ! i ! j)
         * sqrt (exp (t_log_var ! i ! j)) = normal_density 0 1 (epsilon ! i ! j))"
proof -
  let ?sg = "K_sqrt (K_exp t_log_var)"
  let ?t = "map2 (map2 (+)) t_mean (map2 (map2 (*)) ?sg epsilon)"
  have e: "is_tensor b d epsilon"
  proof (cases "b = 0")
    case True
    with m eps show ?thesis by (auto simp: K_shape_empty K_random_normal_def is_tensor_def)
  next
    case False
    with m eps show ?thesis using is_tensor_random_normal [of b d 0 1 s] by (simp add: K_shape_tensor)
  qed
  have sg: "is_tensor b d ?sg"
    using v by (simp add: K_sqrt_def K_exp_def is_tensor_map)
  have run: "sample (t_mean, t_log_var) s = Inr (?t, snd (K_random_normal (K_shape t_mean) 0 1 s))"
    using sample_same_shape [OF m v] eps by simp
  have shape: "is_tensor b d ?t"
    using m is_tensor_map2 [OF sg e] by (rule is_tensor_map2)
  have entry: "epsilon ! i ! j = draws s (position s + i * d + j) \<and>
       ?t ! i ! j = t_mean ! i ! j + sqrt (exp (t_log_var ! i ! j)) * epsilon ! i ! j \<and>
       normal_density (t_mean ! i ! j) (exp (t_log_var ! i ! j)) (?t ! i ! j)
         * sqrt (exp (t_log_var ! i ! j)) = normal_density 0 1 (epsilon ! i ! j)"
    if "i < b" and "j < d" for i j
  proof -
    from that m have sh: "K_shape t_mean = (b, d)" by (simp add: K_shape_tensor)
    have dr: "epsilon ! i ! j = draws s (position s + i * d + j)"
      using that eps sh nth_random_normal [of i b j d 0 1 s] by simp
    have s1: "?sg ! i ! j = sqrt (exp (t_log_var ! i ! j))"
      using that v by (simp add: K_sqrt_def K_exp_def is_tensor_def list_all_length)
    have val: "?t ! i ! j = t_mean ! i ! j + sqrt (exp (t_log_var ! i ! j)) * epsilon ! i ! j"
      using that m sg e s1 by (simp add: nth_map2_rows is_tensor_map2)
    show ?thesis
      unfolding val using dr by (simp add: density_reparam)
  qed
  from run shape entry show ?thesis by blast
qed

theorem sample_reparameterization_witness:
  "is_tensor 1 2 [[1, 2]] \<and> is_tensor 1 2 [[0, 0]] \<and>
   (\<exists>t s'. sample ([[1, 2]], [[0, 0]]) \<lparr>draws = real, position = 0\<rparr> = Inr (t, s') \<and> t ! 0 ! 1 = 3)"
proof -
  have a: "is_tensor 1 2 [[1, 2]]" and b: "is_tensor 1 2 [[0, 0]]"
    by (simp_all add: is_tensor_def)
  from sample_reparameterization [OF a b refl, of "\<lparr>draws = real, position = 0\<rparr>"]
  obtain t s' where
    r: "sample ([[1, 2]], [[0, 0]]) \<lparr>draws = real, position = 0\<rparr> = Inr (t, s')" and
    e: "\<forall>i<1. \<forall>j<2.
       fst (K_random_normal (K_shape [[1, 2]]) 0 1 \<lparr>draws = real, position = 0\<rparr>) ! i ! j
         = draws \<lparr>draws = real, position = 0\<rparr> (position \<lparr>draws = real, position = 0\<rparr> + i * 2 + j) \<and>
       t ! i ! j = [[1, 2]] ! i ! j + sqrt (exp ([[0, 0]] ! i ! j)) *
          fst (K_random_normal (K_shape [[1, 2]]) 0 1 \<lparr>draws = real, position = 0\<rparr>) ! i ! j"
    by blast
  from e have "t ! 0 ! 1 = 3"
    by (simp add: K_shape_def K_random_normal_def)
  with a b r show ?thesis by blast
qed

section \<open>Facts about the loss\<close>

lemma sum_list_nth_lessThan: "sum_list xs = (\<Sum>j<length xs. xs ! j)"
  by (simp add: sum_list_sum_nth atLeast0LessThan)

lemma kl_loss_same_shape:
  assumes m: "is_tensor b d (t_mean_of sc)" and v: "is_tensor b d (t_log_var_of sc)"
  shows "kl_loss sc = Inr (scalar_times (- 0.5) (K_sum
           (map2 (map2 (-)) (map2 (map2 (-)) (scalar_plus 1 (t_log_var_of sc)) (K_square (t_mean_of sc)))
              (K_exp (t_log_var_of sc)))))"
proof -
  have p: "is_tensor b d (scalar_plus 1 (t_log_var_of sc))"
    using v by (simp add: scalar_plus_def is_tensor_map)
  have q: "is_tensor b d (K_square (t_mean_of sc))"
    using m by (simp add: K_square_def is_tensor_map)
  have e: "is_tensor b d (K_exp (t_log_var_of sc))"
    using v by (simp add: K_exp_def is_tensor_map)
  show ?thesis
    by (simp add: kl_loss_def and_then_def broadcast2_same_shape [OF p q]
        broadcast2_same_shape [OF is_tensor_map2 [OF p q] e])
qed

lemma kl_loss_entry:
  assumes m: "is_tensor b d (t_mean_of sc)" and v: "is_tensor b d (t_log_var_of sc)"
  shows "\<exists>kl. kl_loss sc = Inr kl \<and> length kl = b \<and>
     (\<forall>i<b. kl ! i = - 0.5 * (\<Sum>j<d. 1 + t_log_var_of sc ! i ! j - (t_mean_of sc ! i ! j)\<^sup>2
                                    - exp (t_log_var_of sc ! i ! j)))"
proof -
  let ?m = "t_mean_of sc" and ?v = "t_log_var_of sc"
  let ?inner = "map2 (map2 (-)) (map2 (map2 (-)) (scalar_plus 1 ?v) (K_square ?m)) (K_exp ?v)"
  let ?kl = "scalar_times (- 0.5) (K_sum ?inner)"
  have p: "is_tensor b d (scalar_plus 1 ?v)"
    using v by (simp add: scalar_plus_def is_tensor_map)
  have q: "is_tensor b d (K_square ?m)"
    using m by (simp add: K_square_def is_tensor_map)
  have e: "is_tensor b d (K_exp ?v)"
    using v by (simp add: K_exp_def is_tensor_map)
  have pq: "is_tensor b d (map2 (map2 (-)) (scalar_plus 1 ?v) (K_square ?m))"
    using p q by (rule is_tensor_map2)
  have inner: "is_tensor b d ?inner"
    using pq e by (rule is_tensor_map2)
  have len: "length ?kl = b"
    using inner by (simp add: scalar_times_def K_sum_def is_tensor_def)
  have entry: "?kl ! i = - 0.5 * (\<Sum>j<d. 1 + ?v ! i ! j - (?m ! i ! j)\<^sup>2 - exp (?v ! i ! j))"
    if i: "i < b" for i
  proof -
    have row: "length (?inner ! i) = d"
      using inner i by (rule is_tensor_row)
    have cell: "?inner ! i ! j = 1 + ?v ! i ! j - (?m ! i ! j)\<^sup>2 - exp (?v ! i ! j)"
      if j: "j < d" for j
    proof -
      have "?inner ! i ! j = map2 (map2 (-)) (scalar_plus 1 ?v) (K_square ?m) ! i ! j - K_exp ?v ! i ! j"
        using pq e i j by (rule nth_map2_rows)
      also have "map2 (map2 (-)) (scalar_plus 1 ?v) (K_square ?m) ! i ! j
          = scalar_plus 1 ?v ! i ! j - K_square ?m ! i ! j"
        using p q i j by (rule nth_map2_rows)
      also have "scalar_plus 1 ?v ! i ! j = 1 + ?v ! i ! j"
        using v i j by (simp add: scalar_plus_def is_tensor_def list_all_length)
      also have "K_square ?m ! i ! j = (?m ! i ! j)\<^sup>2"
        using m i j by (simp add: K_square_def is_tensor_def list_all_length power2_eq_square)
      also have "K_exp ?v ! i ! j = exp (?v ! i ! j)"
        using v i j by (simp add: K_exp_def is_tensor_def list_all_length)
      finally show ?thesis .
    qed
    have "?kl ! i = - 0.5 * sum_list (?inner ! i)"
      using inner i by (simp add: scalar_times_def K_sum_def is_tensor_def)
    also have "sum_list (?inner ! i) = (\<Sum>j<d. ?inner ! i ! j)"
      using row by (simp add: sum_list_nth_lessThan)
    also have "\<dots> = (\<Sum>j<d. 1 + ?v ! i ! j - (?m ! i ! j)\<^sup>2 - exp (?v ! i ! j))"
      by (rule sum.cong) (simp_all add: cell)
    finally show ?thesis .
  qed
  from kl_loss_same_shape [OF m v] len entry show ?thesis by blast
qed

lemma kl_term_closed_form:
  "- 0.5 * (1 + lv - mu\<^sup>2 - exp lv) = kl_normal_standard_spec mu (exp lv)"
  by (simp add: kl_normal_standard_spec_def field_simps)

lemma kl_term_nonneg: "0 \<le> - 0.5 * (1 + lv - mu\<^sup>2 - exp (lv::real))"
proof -
  have "1 + lv \<le> exp lv" by (rule exp_ge_add_one_self)
  moreover have "0 \<le> mu\<^sup>2" by simp
  ultimately have "1 + lv - mu\<^sup>2 \<le> exp lv" by linarith
  then show ?thesis by simp
qed


lemma broadcast1_same_length:
  "length xs = length ys \<Longrightarrow> broadcast1 f xs ys = Inr (map2 f xs ys)"
  by (simp add: broadcast1_def fits_def stretch_same)

lemma K_batch_flatten_tensor:
  assumes "list_all (has_shape (h, w, c)) x"
  shows "is_tensor (length x) (h * w * c) (K_batch_flatten x)"
  using assms length_Flatten [of h w c]
  by (auto simp: is_tensor_def K_batch_flatten_def list_all_iff Flatten_def)

lemma rc_loss_entry:
  assumes fx: "is_tensor b n (K_batch_flatten x)" and ft: "is_tensor b n (K_batch_flatten t_decoded)"
  shows "\<exists>rc. rc_loss x t_decoded = Inr rc \<and> length rc = b \<and>
     (\<forall>i<b. rc ! i = (\<Sum>p<n. binary_crossentropy (K_batch_flatten x ! i ! p)
                                                     (K_batch_flatten t_decoded ! i ! p)))"
proof -
  let ?x = "K_batch_flatten x" and ?t = "K_batch_flatten t_decoded"
  let ?ce = "map2 (map2 binary_crossentropy) ?x ?t"
  have ce: "is_tensor b n ?ce"
    using fx ft by (rule is_tensor_map2)
  have run: "rc_loss x t_decoded = Inr (K_sum ?ce)"
    by (simp add: rc_loss_def K_binary_crossentropy_def and_then_def broadcast2_same_shape [OF fx ft])
  have len: "length (K_sum ?ce) = b"
    using ce by (simp add: K_sum_def is_tensor_def)
  have entry: "K_sum ?ce ! i = (\<Sum>p<n. binary_crossentropy (?x ! i ! p) (?t ! i ! p))"
    if i: "i < b" for i
  proof -
    have row: "length (?ce ! i) = n"
      using ce i by (rule is_tensor_row)
    have "K_sum ?ce ! i = sum_list (?ce ! i)"
      using ce i by (simp add: K_sum_def is_tensor_def)
    also have "\<dots> = (\<Sum>p<n. ?ce ! i ! p)"
      using row by (simp add: sum_list_nth_lessThan)
    also have "\<dots> = (\<Sum>p<n. binary_crossentropy (?x ! i ! p) (?t ! i ! p))"
      by (rule sum.cong) (simp_all add: nth_map2_rows [OF fx ft i])
    finally show ?thesis .
  qed
  from run len entry show ?thesis by blast
qed

lemma clip_in_unit_interval:
  "0 < clip_by_value p K_epsilon (1 - K_epsilon) \<and> clip_by_value p K_epsilon (1 - K_epsilon) < 1"
  by (simp add: clip_by_value_def K_epsilon_def max_def min_def)

lemma sigmoid_cross_entropy_nonneg:
  assumes "0 \<le> z" and "z \<le> 1"
  shows "0 \<le> sigmoid_cross_entropy_with_logits z x"
proof -
  have a: "0 \<le> max x 0 - x * z"
  proof (cases "0 \<le> x")
    case True
    then have "x * z \<le> x * 1" using assms by (intro mult_left_mono) simp_all
    with True show ?thesis by simp
  next
    case False
    then have "x * z \<le> 0" using assms by (simp add: mult_nonpos_nonneg)
    with False show ?thesis by simp
  qed
  have "0 \<le> ln (1 + exp (- \<bar>x\<bar>))"
    by (rule ln_ge_zero) simp
  with a show ?thesis by (simp add: sigmoid_cross_entropy_with_logits_def)
qed

lemma binary_crossentropy_nonneg:
  "0 \<le> z \<Longrightarrow> z \<le> 1 \<Longrightarrow> 0 \<le> binary_crossentropy z p"
  by (simp add: binary_crossentropy_def Let_def sigmoid_cross_entropy_nonneg)

lemma logit_cross_entropy:
  assumes "0 < p" and "p < 1"
  shows "sigmoid_cross_entropy_with_logits z (ln (p / (1 - p))) = cross_entropy_spec z p"
proof -
  define x where "x = ln (p / (1 - p))"
  from assms have q: "0 < 1 - p" by simp
  from assms q have xd: "x = ln p - ln (1 - p)" by (simp add: x_def ln_div)
  from assms q have ex: "exp x = p / (1 - p)" by (simp add: x_def)
  then have emx: "exp (- x) = (1 - p) / p" by (simp add: exp_minus)
  have "sigmoid_cross_entropy_with_logits z x = cross_entropy_spec z p"
  proof (cases "0 \<le> x")
    case True
    from assms have "1 + exp (- x) = 1 / p" by (simp add: emx field_simps)
    then have "ln (1 + exp (- x)) = ln (1 / p)" by simp
    also from assms have "\<dots> = - ln p" by (simp add: ln_div)
    finally have "ln (1 + exp (- \<bar>x\<bar>)) = - ln p" using True by simp
    with True have "sigmoid_cross_entropy_with_logits z x = x - x * z - ln p"
      by (simp add: sigmoid_cross_entropy_with_logits_def)
    then show ?thesis by (simp add: xd cross_entropy_spec_def algebra_simps)
  next
    case False
    from q have "1 + exp x = 1 / (1 - p)" by (simp add: ex field_simps)
    then have "ln (1 + exp x) = ln (1 / (1 - p))" by simp
    also from q have "\<dots> = - ln (1 - p)" by (simp add: ln_div)
    finally have "ln (1 + exp (- \<bar>x\<bar>)) = - ln (1 - p)" using False by simp
    with False have "sigmoid_cross_entropy_with_logits z x = - x * z - ln (1 - p)"
      by (simp add: sigmoid_cross_entropy_with_logits_def)
    then show ?thesis by (simp add: xd cross_entropy_spec_def algebra_simps)
  qed
  then show ?thesis by (simp add: x_def)
qed

lemma binary_crossentropy_clipped:
  "binary_crossentropy z p = cross_entropy_spec z (clip_by_value p K_epsilon (1 - K_epsilon))"
  using clip_in_unit_interval [of p] by (simp add: binary_crossentropy_def Let_def logit_cross_entropy)

lemma binary_crossentropy_unclipped:
  "K_epsilon \<le> p \<Longrightarrow> p \<le> 1 - K_epsilon \<Longrightarrow> binary_crossentropy z p = cross_entropy_spec z p"
  by (simp add: binary_crossentropy_clipped clip_by_value_def)

lemma sum_list_map2_plus:
  "length xs = length ys \<Longrightarrow> sum_list (map2 (+) xs ys) = (\<Sum>i<length xs. xs ! i + (ys ! i :: real))"
  by (simp add: sum_list_nth_lessThan)

lemma loss_value:
  assumes b: "0 < b"
    and fx: "is_tensor b n (K_batch_flatten x)" and ft: "is_tensor b n (K_batch_flatten t_decoded)"
    and m: "is_tensor b d (t_mean_of sc)" and v: "is_tensor b d (t_log_var_of sc)"
  shows "neg_variational_lower_bound sc x t_decoded =
     Inr ((\<Sum>i<b. (\<Sum>p<n. binary_crossentropy (K_batch_flatten x ! i ! p) (K_batch_flatten t_decoded ! i ! p))
                 + - 0.5 * (\<Sum>j<d. 1 + t_log_var_of sc ! i ! j - (t_mean_of sc ! i ! j)\<^sup>2
                                    - exp (t_log_var_of sc ! i ! j))) / real b)"
proof -
  from rc_loss_entry [OF fx ft] obtain rc where
    rc: "rc_loss x t_decoded = Inr rc" and lrc: "length rc = b" and
    erc: "\<And>i. i < b \<Longrightarrow> rc ! i = (\<Sum>p<n. binary_crossentropy (K_batch_flatten x ! i ! p)
                                                     (K_batch_flatten t_decoded ! i ! p))"
    by blast
  from kl_loss_entry [OF m v] obtain kl where
    kl: "kl_loss sc = Inr kl" and lkl: "length kl = b" and
    ekl: "\<And>i. i < b \<Longrightarrow> kl ! i = - 0.5 * (\<Sum>j<d. 1 + t_log_var_of sc ! i ! j - (t_mean_of sc ! i ! j)\<^sup>2
                                    - exp (t_log_var_of sc ! i ! j))"
    by blast
  have add: "broadcast1 (+) rc kl = Inr (map2 (+) rc kl)"
    using lrc lkl by (simp add: broadcast1_same_length)
  have ne: "map2 (+) rc kl \<noteq> []"
    using b lrc lkl by auto
  have len: "length (map2 (+) rc kl) = b"
    using lrc lkl by simp
  have "neg_variational_lower_bound sc x t_decoded = Inr (sum_list (map2 (+) rc kl) / real b)"
    using ne len by (simp add: neg_variational_lower_bound_def rc kl add and_then_def K_mean_def)
  also have "sum_list (map2 (+) rc kl) = (\<Sum>i<b. rc ! i + kl ! i)"
    using lrc lkl by (simp add: sum_list_map2_plus)
  also have "\<dots> = (\<Sum>i<b. (\<Sum>p<n. binary_crossentropy (K_batch_flatten x ! i ! p) (K_batch_flatten t_decoded ! i ! p))
                 + - 0.5 * (\<Sum>j<d. 1 + t_log_var_of sc ! i ! j - (t_mean_of sc ! i ! j)\<^sup>2
                                    - exp (t_log_var_of sc ! i ! j)))"
    by (rule sum.cong) (simp_all add: erc ekl)
  finally show ?thesis .
qed

section \<open>The Kullback-Leibler term\<close>

lemma singleton_nth: "length xs = Suc 0 \<Longrightarrow> xs = [xs ! 0]"
  by (cases xs) simp_all

text \<open>
  C2. When the mean and the log-variance of the enclosing scope are tensors of one shape
  \<open>(b, d)\<close>, the regularization term of the loss has one entry per example, and the entry
  of example \<open>i\<close> is \<open>-0.5 * (\<Sum>j<d. 1 + log_variance - mean\<^sup>2 - exp log_variance)\<close>, which is
  the sum over the latent dimensions of the closed form of the Kullback-Leibler divergence
  of \<open>Normal(mean, exp log_variance)\<close> from the standard normal distribution.
\<close>

theorem kl_loss_closed_form:
  assumes m: "is_tensor b d (t_mean_of sc)" and v: "is_tensor b d (t_log_var_of sc)"
  shows "\<exists>kl. kl_loss sc = Inr kl \<and> length kl = b \<and>
     (\<forall>i<b. kl ! i = - 0.5 * (\<Sum>j<d. 1 + t_log_var_of sc ! i ! j - (t_mean_of sc ! i ! j)\<^sup>2
                                    - exp (t_log_var_of sc ! i ! j)) \<and>
            kl ! i = (\<Sum>j<d. kl_normal_standard_spec (t_mean_of sc ! i ! j)
                                 (exp (t_log_var_of sc ! i ! j))))"
proof -
  have "- 0.5 * (\<Sum>j<d. 1 + t_log_var_of sc ! i ! j - (t_mean_of sc ! i ! j)\<^sup>2
                                    - exp (t_log_var_of sc ! i ! j))
      = (\<Sum>j<d. kl_normal_standard_spec (t_mean_of sc ! i ! j) (exp (t_log_var_of sc ! i ! j)))" for i
    unfolding sum_distrib_left kl_term_closed_form ..
  with kl_loss_entry [OF m v] show ?thesis by metis
qed

theorem kl_loss_closed_form_witness:
  "kl_loss \<lparr>x_of = [], t_mean_of = [[1]], t_log_var_of = [[0]], t_of = [], t_decoded_of = []\<rparr>
     = Inr [1 / 2]"
proof -
  let ?sc = "\<lparr>x_of = [], t_mean_of = [[1]], t_log_var_of = [[0]], t_of = [], t_decoded_of = []\<rparr>"
  have m: "is_tensor 1 1 (t_mean_of ?sc)" and v: "is_tensor 1 1 (t_log_var_of ?sc)"
    by (simp_all add: is_tensor_def)
  from kl_loss_closed_form [OF m v] obtain kl where
    r: "kl_loss ?sc = Inr kl" and l: "length kl = 1" and
    e: "\<forall>i<1. kl ! i = - 0.5 * (\<Sum>j<1. 1 + t_log_var_of ?sc ! i ! j - (t_mean_of ?sc ! i ! j)\<^sup>2
                                    - exp (t_log_var_of ?sc ! i ! j))"
    by blast
  from e have h: "kl ! 0 = 1 / 2" by simp
  from l have k: "kl = [kl ! 0]" by (intro singleton_nth) simp
  from r k h show ?thesis by metis
qed

text \<open>
  C5. For an example whose mean entries are all 0 and whose log-variance entries are all 0,
  the Kullback-Leibler term of the loss is exactly 0.
\<close>

theorem kl_loss_zero_at_prior:
  assumes m: "is_tensor b d (t_mean_of sc)" and v: "is_tensor b d (t_log_var_of sc)"
    and i: "i < b"
    and m0: "\<forall>j<d. t_mean_of sc ! i ! j = 0" and v0: "\<forall>j<d. t_log_var_of sc ! i ! j = 0"
  shows "\<exists>kl. kl_loss sc = Inr kl \<and> length kl = b \<and> kl ! i = 0"
proof -
  from kl_loss_entry [OF m v] obtain kl where
    r: "kl_loss sc = Inr kl" and l: "length kl = b" and
    e: "\<And>i. i < b \<Longrightarrow> kl ! i = - 0.5 * (\<Sum>j<d. 1 + t_log_var_of sc ! i ! j - (t_mean_of sc ! i ! j)\<^sup>2
                                    - exp (t_log_var_of sc ! i ! j))"
    by blast
  have "(\<Sum>j<d. 1 + t_log_var_of sc ! i ! j - (t_mean_of sc ! i ! j)\<^sup>2
                                    - exp (t_log_var_of sc ! i ! j)) = (\<Sum>j<d. 0)"
    by (rule sum.cong) (simp_all add: m0 v0)
  with e [OF i] have "kl ! i = 0" by simp
  with r l show ?thesis by blast
qed

theorem kl_loss_zero_at_prior_witness:
  "kl_loss \<lparr>x_of = [], t_mean_of = [[0, 0]], t_log_var_of = [[0, 0]], t_of = [], t_decoded_of = []\<rparr>
     = Inr [0]"
proof -
  let ?sc = "\<lparr>x_of = [], t_mean_of = [[0, 0]], t_log_var_of = [[0, 0]], t_of = [], t_decoded_of = []\<rparr>"
  have m: "is_tensor 1 2 (t_mean_of ?sc)" and v: "is_tensor 1 2 (t_log_var_of ?sc)"
    by (simp_all add: is_tensor_def)
  have i: "(0::nat) < 1" by simp
  have m0: "\<forall>j<2. t_mean_of ?sc ! 0 ! j = 0" and v0: "\<forall>j<2. t_log_var_of ?sc ! 0 ! j = 0"
    by (simp_all add: less_Suc_eq numeral_2_eq_2)
  from kl_loss_zero_at_prior [OF m v i m0 v0] obtain kl where
    r: "kl_loss ?sc = Inr kl" and l: "length kl = 1" and e: "kl ! 0 = 0"
    by blast
  from l have k: "kl = [kl ! 0]" by (intro singleton_nth) simp
  from r k e show ?thesis by metis
qed

text \<open>
  C6. For every mean tensor and log-variance tensor of one shape, whatever their real
  entries, every per-example Kullback-Leibler term computed by the loss is non-negative.
\<close>

theorem kl_loss_nonneg:
  assumes m: "is_tensor b d (t_mean_of sc)" and v: "is_tensor b d (t_log_var_of sc)"
  shows "\<exists>kl. kl_loss sc = Inr kl \<and> length kl = b \<and>
     (\<forall>i<b. kl ! i = - 0.5 * (\<Sum>j<d. 1 + t_log_var_of sc ! i ! j - (t_mean_of sc ! i ! j)\<^sup>2
                                    - exp (t_log_var_of sc ! i ! j)) \<and>
            0 \<le> kl ! i)"
proof -
  from kl_loss_entry [OF m v] obtain kl where
    r: "kl_loss sc = Inr kl" and l: "length kl = b" and
    e: "\<And>i. i < b \<Longrightarrow> kl ! i = - 0.5 * (\<Sum>j<d. 1 + t_log_var_of sc ! i ! j - (t_mean_of sc ! i ! j)\<^sup>2
                                    - exp (t_log_var_of sc ! i ! j))"
    by blast
  have "0 \<le> kl ! i" if "i < b" for i
  proof -
    have "0 \<le> (\<Sum>j<d. - 0.5 * (1 + t_log_var_of sc ! i ! j - (t_mean_of sc ! i ! j)\<^sup>2
                                    - exp (t_log_var_of sc ! i ! j)))"
      by (rule sum_nonneg) (rule kl_term_nonneg)
    then show ?thesis
      unfolding e [OF that] sum_distrib_left .
  qed
  with r l e show ?thesis by blast
qed

theorem kl_loss_nonneg_witness:
  "\<exists>kl. kl_loss \<lparr>x_of = [], t_mean_of = [[3]], t_log_var_of = [[- 1]], t_of = [], t_decoded_of = []\<rparr>
     = Inr kl \<and> length kl = 1 \<and> 0 \<le> kl ! 0"
proof -
  let ?sc = "\<lparr>x_of = [], t_mean_of = [[3]], t_log_var_of = [[- 1]], t_of = [], t_decoded_of = []\<rparr>"
  have m: "is_tensor 1 1 (t_mean_of ?sc)" and v: "is_tensor 1 1 (t_log_var_of ?sc)"
    by (simp_all add: is_tensor_def)
  from kl_loss_nonneg [OF m v] show ?thesis by auto
qed

section \<open>The reconstruction term, the loss and the sampler\<close>

text \<open>
  C7. For image batches and reconstruction batches of one shape with all pixel values and
  all reconstructed values in \<open>[0, 1]\<close>, every per-example reconstruction term computed by
  the loss is non-negative.
\<close>

theorem rc_loss_nonneg:
  assumes fx: "is_tensor b n (K_batch_flatten x)" and ft: "is_tensor b n (K_batch_flatten t_decoded)"
    and px: "\<forall>i<b. \<forall>p<n. 0 \<le> K_batch_flatten x ! i ! p \<and> K_batch_flatten x ! i ! p \<le> 1"
    and pt: "\<forall>i<b. \<forall>p<n. 0 \<le> K_batch_flatten t_decoded ! i ! p \<and> K_batch_flatten t_decoded ! i ! p \<le> 1"
  shows "\<exists>rc. rc_loss x t_decoded = Inr rc \<and> length rc = b \<and>
     (\<forall>i<b. rc ! i = (\<Sum>p<n. binary_crossentropy (K_batch_flatten x ! i ! p)
                                                   (K_batch_flatten t_decoded ! i ! p)) \<and>
            0 \<le> rc ! i)"
proof -
  from rc_loss_entry [OF fx ft] obtain rc where
    r: "rc_loss x t_decoded = Inr rc" and l: "length rc = b" and
    e: "\<And>i. i < b \<Longrightarrow> rc ! i = (\<Sum>p<n. binary_crossentropy (K_batch_flatten x ! i ! p)
                                                     (K_batch_flatten t_decoded ! i ! p))"
    by blast
  have "0 \<le> rc ! i" if i: "i < b" for i
    unfolding e [OF i] using px i by (intro sum_nonneg binary_crossentropy_nonneg) simp_all
  with r l e show ?thesis by blast
qed

theorem rc_loss_nonneg_witness:
  "\<exists>rc. rc_loss [[[[1]]]] [[[[1 / 2]]]] = Inr rc \<and> length rc = 1 \<and> 0 \<le> rc ! 0"
proof -
  have fx: "is_tensor 1 1 (K_batch_flatten [[[[1]]]])"
    and ft: "is_tensor 1 1 (K_batch_flatten [[[[1 / 2]]]])"
    by (simp_all add: is_tensor_def K_batch_flatten_def)
  have px: "\<forall>i<1. \<forall>p<1. 0 \<le> K_batch_flatten [[[[1]]]] ! i ! p \<and> K_batch_flatten [[[[1]]]] ! i ! p \<le> 1"
    and pt: "\<forall>i<1. \<forall>p<1. 0 \<le> K_batch_flatten [[[[1 / 2]]]] ! i ! p \<and> K_batch_flatten [[[[1 / 2]]]] ! i ! p \<le> 1"
    by (simp_all add: K_batch_flatten_def)
  from rc_loss_nonneg [OF fx ft px pt] show ?thesis by auto
qed

text \<open>
  C3. For a non-empty batch of images with its reconstructions, means and log-variances,
  the loss is the arithmetic mean over the batch of the per-example reconstruction term
  plus the per-example Kullback-Leibler term, added unweighted. The reconstruction term of
  an example is the sum over its pixels of the backend's binary cross-entropy between the
  pixel and the reconstructed probability, which is \<open>- (z * ln p + (1 - z) * ln (1 - p))\<close> for
  the pixel \<open>z\<close> and the reconstructed probability \<open>p\<close> clipped to
  \<open>[K_epsilon, 1 - K_epsilon]\<close>.
\<close>

theorem loss_is_batch_mean:
  assumes b: "0 < b"
    and fx: "is_tensor b n (K_batch_flatten x)" and ft: "is_tensor b n (K_batch_flatten t_decoded)"
    and m: "is_tensor b d (t_mean_of sc)" and v: "is_tensor b d (t_log_var_of sc)"
  shows "\<exists>rc kl. rc_loss x t_decoded = Inr rc \<and> length rc = b \<and>
      kl_loss sc = Inr kl \<and> length kl = b \<and>
      neg_variational_lower_bound sc x t_decoded = Inr ((\<Sum>i<b. rc ! i + kl ! i) / real b) \<and>
      (\<forall>i<b.
         rc ! i = (\<Sum>p<n. binary_crossentropy (K_batch_flatten x ! i ! p)
                                                (K_batch_flatten t_decoded ! i ! p)) \<and>
         rc ! i = (\<Sum>p<n. cross_entropy_spec (K_batch_flatten x ! i ! p)
                      (clip_by_value (K_batch_flatten t_decoded ! i ! p) K_epsilon (1 - K_epsilon))) \<and>
         kl ! i = - 0.5 * (\<Sum>j<d. 1 + t_log_var_of sc ! i ! j - (t_mean_of sc ! i ! j)\<^sup>2
                                    - exp (t_log_var_of sc ! i ! j)))"
proof -
  from rc_loss_entry [OF fx ft] obtain rc where
    rc: "rc_loss x t_decoded = Inr rc" and lrc: "length rc = b" and
    erc: "\<And>i. i < b \<Longrightarrow> rc ! i = (\<Sum>p<n. binary_crossentropy (K_batch_flatten x ! i ! p)
                                                     (K_batch_flatten t_decoded ! i ! p))"
    by blast
  from kl_loss_entry [OF m v] obtain kl where
    kl: "kl_loss sc = Inr kl" and lkl: "length kl = b" and
    ekl: "\<And>i. i < b \<Longrightarrow> kl ! i = - 0.5 * (\<Sum>j<d. 1 + t_log_var_of sc ! i ! j - (t_mean_of sc ! i ! j)\<^sup>2
                                    - exp (t_log_var_of sc ! i ! j))"
    by blast
  have "neg_variational_lower_bound sc x t_decoded = Inr ((\<Sum>i<b. rc ! i + kl ! i) / real b)"
    unfolding loss_value [OF b fx ft m v] by (simp add: erc ekl)
  moreover have "rc ! i = (\<Sum>p<n. cross_entropy_spec (K_batch_flatten x ! i ! p)
                      (clip_by_value (K_batch_flatten t_decoded ! i ! p) K_epsilon (1 - K_epsilon)))"
    if "i < b" for i
    unfolding erc [OF that] binary_crossentropy_clipped ..
  ultimately show ?thesis using rc kl lrc lkl erc ekl by blast
qed

theorem loss_is_batch_mean_witness:
  "neg_variational_lower_bound
     \<lparr>x_of = [], t_mean_of = [[1]], t_log_var_of = [[0]], t_of = [], t_decoded_of = []\<rparr>
     [[[[1]]]] [[[[1 / 2]]]] = Inr (ln 2 + 1 / 2)"
proof -
  let ?sc = "\<lparr>x_of = [], t_mean_of = [[1]], t_log_var_of = [[0]], t_of = [], t_decoded_of = []\<rparr>"
  have b: "(0::nat) < 1" by simp
  have fx: "is_tensor 1 1 (K_batch_flatten [[[[1]]]])"
    and ft: "is_tensor 1 1 (K_batch_flatten [[[[1 / 2]]]])"
    by (simp_all add: is_tensor_def K_batch_flatten_def)
  have m: "is_tensor 1 1 (t_mean_of ?sc)" and v: "is_tensor 1 1 (t_log_var_of ?sc)"
    by (simp_all add: is_tensor_def)
  from loss_is_batch_mean [OF b fx ft m v] obtain rc kl where
    r: "neg_variational_lower_bound ?sc [[[[1]]]] [[[[1 / 2]]]] = Inr ((\<Sum>i<1. rc ! i + kl ! i) / real 1)"
    and e: "\<forall>i<1.
         rc ! i = (\<Sum>p<1. cross_entropy_spec (K_batch_flatten [[[[1]]]] ! i ! p)
                      (clip_by_value (K_batch_flatten [[[[1 / 2]]]] ! i ! p) K_epsilon (1 - K_epsilon))) \<and>
         kl ! i = - 0.5 * (\<Sum>j<1. 1 + t_log_var_of ?sc ! i ! j - (t_mean_of ?sc ! i ! j)\<^sup>2
                                    - exp (t_log_var_of ?sc ! i ! j))"
    by blast
  have c: "clip_by_value (1 / 2) K_epsilon (1 - K_epsilon) = 1 / 2"
    by (simp add: clip_by_value_def K_epsilon_def)
  from e have "rc ! 0 = ln 2" and "kl ! 0 = 1 / 2"
    by (simp_all add: K_batch_flatten_def c cross_entropy_spec_def ln_div)
  with r show ?thesis by simp
qed

text \<open>
  C4, as stated: the loss would return the same scalar for identical image and
  reconstruction batches whatever the enclosing scope holds. It does not: the function has
  no parameter for the mean and the log-variance and reads them from the enclosing scope, so
  two invocations on the same arguments differ when the scope's mean differs.
\<close>

theorem loss_reads_enclosing_scope:
  "neg_variational_lower_bound
     \<lparr>x_of = [], t_mean_of = [[0]], t_log_var_of = [[0]], t_of = [], t_decoded_of = []\<rparr>
     [[[[1]]]] [[[[1 / 2]]]]
   \<noteq> neg_variational_lower_bound
     \<lparr>x_of = [], t_mean_of = [[1]], t_log_var_of = [[0]], t_of = [], t_decoded_of = []\<rparr>
     [[[[1]]]] [[[[1 / 2]]]]"
proof -
  let ?a = "\<lparr>x_of = [], t_mean_of = [[0]], t_log_var_of = [[0]], t_of = [], t_decoded_of = []\<rparr>"
  let ?b = "\<lparr>x_of = [], t_mean_of = [[1]], t_log_var_of = [[0]], t_of = [], t_decoded_of = []\<rparr>"
  have b: "(0::nat) < 1" by simp
  have fx: "is_tensor 1 1 (K_batch_flatten [[[[1]]]])"
    and ft: "is_tensor 1 1 (K_batch_flatten [[[[1 / 2]]]])"
    by (simp_all add: is_tensor_def K_batch_flatten_def)
  have ma: "is_tensor 1 1 (t_mean_of ?a)" and va: "is_tensor 1 1 (t_log_var_of ?a)"
    and mb: "is_tensor 1 1 (t_mean_of ?b)" and vb: "is_tensor 1 1 (t_log_var_of ?b)"
    by (simp_all add: is_tensor_def)
  show ?thesis
    unfolding loss_value [OF b fx ft ma va] loss_value [OF b fx ft mb vb] by simp
qed

text \<open>
  C4, amended: the loss takes the image batch and the reconstruction batch as its only
  parameters and reads the mean and the log-variance from the enclosing scope. Two
  invocations on identical image and reconstruction batches return the same result
  whenever the enclosing scopes hold the same mean and log-variance, whatever else they
  hold.
\<close>

theorem loss_function_of_scope_tensors:
  assumes "t_mean_of sc = t_mean_of sc'" and "t_log_var_of sc = t_log_var_of sc'"
  shows "neg_variational_lower_bound sc x t_decoded = neg_variational_lower_bound sc' x t_decoded"
  using assms by (simp add: neg_variational_lower_bound_def kl_loss_def)

theorem loss_function_of_scope_tensors_witness:
  "neg_variational_lower_bound
     \<lparr>x_of = [], t_mean_of = [[1]], t_log_var_of = [[0]], t_of = [], t_decoded_of = []\<rparr>
     [[[[1]]]] [[[[1 / 2]]]]
   = neg_variational_lower_bound
     \<lparr>x_of = [[[[0]]]], t_mean_of = [[1]], t_log_var_of = [[0]], t_of = [[5]], t_decoded_of = [[[[1]]]]\<rparr>
     [[[[1]]]] [[[[1 / 2]]]]"
  by (rule loss_function_of_scope_tensors) simp_all

text \<open>
  C8. For mean and log-variance tensors of one shape, the sampler returns a tensor of the
  shape of the mean, and the tensor it returns is determined by the mean, the log-variance
  and the variates drawn: every entropy source that hands out the same variates gives the
  same sample.
\<close>

theorem sample_shape_deterministic:
  assumes m: "is_tensor b d t_mean" and v: "is_tensor b d t_log_var"
  shows "\<exists>t s'. sample (t_mean, t_log_var) s = Inr (t, s') \<and>
      is_tensor b d t \<and> K_shape t = K_shape t_mean \<and>
      (\<forall>s2. fst (K_random_normal (K_shape t_mean) 0 1 s2) = fst (K_random_normal (K_shape t_mean) 0 1 s)
          \<longrightarrow> (\<exists>s2'. sample (t_mean, t_log_var) s2 = Inr (t, s2')))"
proof -
  let ?eps = "\<lambda>s. fst (K_random_normal (K_shape t_mean) 0 1 s)"
  let ?t = "\<lambda>s. map2 (map2 (+)) t_mean (map2 (map2 (*)) (K_sqrt (K_exp t_log_var)) (?eps s))"
  have e: "is_tensor b d (?eps s)"
  proof (cases "b = 0")
    case True
    with m show ?thesis by (simp add: K_shape_empty K_random_normal_def is_tensor_def)
  next
    case False
    with m show ?thesis by (simp add: K_shape_tensor is_tensor_random_normal)
  qed
  have sg: "is_tensor b d (K_sqrt (K_exp t_log_var))"
    using v by (simp add: K_sqrt_def K_exp_def is_tensor_map)
  have shape: "is_tensor b d (?t s)"
    using m is_tensor_map2 [OF sg e] by (rule is_tensor_map2)
  have same: "K_shape (?t s) = K_shape t_mean"
  proof (cases "b = 0")
    case True
    with m shape show ?thesis by (simp add: K_shape_empty)
  next
    case False
    with m shape show ?thesis by (simp add: K_shape_tensor)
  qed
  have "\<exists>s2'. sample (t_mean, t_log_var) s2 = Inr (?t s, s2')"
    if "?eps s2 = ?eps s" for s2
    using sample_same_shape [OF m v, of s2] that by simp
  with sample_same_shape [OF m v, of s] shape same show ?thesis by blast
qed

theorem sample_shape_deterministic_witness:
  "\<exists>t s' s2'. sample ([[1, 2]], [[0, 0]]) \<lparr>draws = real, position = 0\<rparr> = Inr (t, s') \<and>
      K_shape t = (1, 2) \<and>
      sample ([[1, 2]], [[0, 0]]) \<lparr>draws = (\<lambda>n. real (n - 5)), position = 5\<rparr> = Inr (t, s2')"
proof -
  let ?s = "\<lparr>draws = real, position = 0\<rparr>"
  let ?s2 = "\<lparr>draws = (\<lambda>n. real (n - 5)), position = 5\<rparr>"
  have m: "is_tensor 1 2 [[1, 2]]" and v: "is_tensor 1 2 [[0, 0]]"
    by (simp_all add: is_tensor_def)
  have same: "fst (K_random_normal (K_shape [[1, 2]]) 0 1 ?s2) = fst (K_random_normal (K_shape [[1, 2]]) 0 1 ?s)"
    by (simp add: K_shape_def K_random_normal_def)
  have sh: "K_shape [[1, 2::real]] = (1, 2)"
    by (simp add: K_shape_def)
  from sample_shape_deterministic [OF m v, of ?s] same sh show ?thesis
    by metis
qed

section \<open>The decoder and the composed model\<close>

lemma sample_tensor:
  assumes m: "is_tensor b d t_mean" and v: "is_tensor b d t_log_var"
  shows "\<exists>t s'. sample (t_mean, t_log_var) s = Inr (t, s') \<and> is_tensor b d t"
proof -
  let ?eps = "fst (K_random_normal (K_shape t_mean) 0 1 s)"
  have e: "is_tensor b d ?eps"
  proof (cases "b = 0")
    case True
    with m show ?thesis by (simp add: K_shape_empty K_random_normal_def is_tensor_def)
  next
    case False
    with m show ?thesis by (simp add: K_shape_tensor is_tensor_random_normal)
  qed
  have sg: "is_tensor b d (K_sqrt (K_exp t_log_var))"
    using v by (simp add: K_sqrt_def K_exp_def is_tensor_map)
  have "is_tensor b d (map2 (map2 (+)) t_mean (map2 (map2 (*)) (K_sqrt (K_exp t_log_var)) ?eps))"
    using m is_tensor_map2 [OF sg e] by (rule is_tensor_map2)
  with sample_same_shape [OF m v, of s] show ?thesis by blast
qed

lemma create_encoder_heads:
  assumes l: "length x = b" and sh: "list_all (has_shape image_shape) x"
  shows "\<exists>t_mean t_log_var. create_encoder w x = Inr (t_mean, t_log_var) \<and>
     is_tensor b latent_dim t_mean \<and> is_tensor b latent_dim t_log_var"
proof -
  let ?P = "\<lambda>r. length (fst r) = latent_dim \<and> length (snd r) = latent_dim"
  have "\<forall>img\<in>set x. \<exists>r. encoder_graph w img = Inr r \<and> ?P r"
    using sh encoder_graph_heads [of _ w] by (fastforce simp: list_all_iff)
  from collect_all [of x "encoder_graph w" ?P, OF this] obtain rs where
    rs: "collect (map (encoder_graph w) x) = Inr rs" "length rs = length x" "list_all ?P rs"
    by blast
  have "create_encoder w x = Inr (map fst rs, map snd rs)"
    by (simp add: create_encoder_def rs(1) and_then_def)
  moreover have "is_tensor b latent_dim (map fst rs)" "is_tensor b latent_dim (map snd rs)"
    using rs(2,3) l by (simp_all add: is_tensor_def list_all_iff)
  ultimately show ?thesis by blast
qed

lemma create_decoder_images:
  assumes t: "is_tensor b latent_dim t"
  shows "\<exists>y. create_decoder w t = Inr y \<and> length y = b \<and>
     list_all (\<lambda>img. has_shape image_shape img \<and>
                 (\<forall>row\<in>set img. \<forall>px\<in>set row. \<forall>v\<in>set px. 0 \<le> v \<and> v \<le> 1)) y"
proof -
  let ?P = "\<lambda>img. has_shape image_shape img \<and>
                 (\<forall>row\<in>set img. \<forall>px\<in>set row. \<forall>v\<in>set px. 0 \<le> v \<and> v \<le> 1)"
  have "\<exists>y. decoder_graph w z = Inr y \<and> ?P y" if "z \<in> set t" for z
  proof -
    from that t have "length z = latent_dim"
      by (simp add: is_tensor_def list_all_iff)
    from decoder_graph_steps [OF this, of w] obtain u y where
      "Conv2D 1 3 1 Sigmoid (dec_conv w) u = Inr y" "has_shape (28, 28, 1) y"
      "decoder_graph w z = Inr y"
      by blast
    with Conv2D_Sigmoid_range [of 1 3 1 "dec_conv w" u y] show ?thesis
      by (simp add: image_shape_def del: One_nat_def)
  qed
  then have "\<forall>z\<in>set t. \<exists>y. decoder_graph w z = Inr y \<and> ?P y" by blast
  from collect_all [of t "decoder_graph w" ?P, OF this] t show ?thesis
    by (simp add: create_decoder_def is_tensor_def)
qed

text \<open>
  C9. For every batch of \<open>b\<close> latent vectors of the latent dimensionality (2) and whatever
  the weights, the decoder returns a batch of \<open>b\<close> reconstructions, each of the shape
  \<open>(28, 28, 1)\<close> of the images (so a batch of shape \<open>(4, 28, 28, 1)\<close> for a batch of shape
  \<open>(4, 2)\<close>), with every entry in \<open>[0, 1]\<close>: every entry is a value of the sigmoid.
\<close>

theorem decoder_shape_and_range:
  assumes "is_tensor b latent_dim t"
  shows "\<exists>y. create_decoder w t = Inr y \<and> length y = b \<and>
     (\<forall>img\<in>set y. has_shape image_shape img \<and>
         (\<forall>row\<in>set img. \<forall>px\<in>set row. \<forall>v\<in>set px. 0 \<le> v \<and> v \<le> 1))"
  using create_decoder_images [OF assms, of w] by (simp add: list_all_iff)

theorem decoder_shape_and_range_witness:
  "\<exists>y. create_decoder
      \<lparr>dec_dense = \<lparr>dense_kernel = \<lambda>i u. 0, dense_bias = \<lambda>u. 0\<rparr>,
       dec_conv_transpose = \<lparr>conv_kernel = \<lambda>i j f c. 0, conv_bias = \<lambda>f. 0\<rparr>,
       dec_conv = \<lparr>conv_kernel = \<lambda>i j c f. 0, conv_bias = \<lambda>f. 0\<rparr>\<rparr>
      [[0, 0], [0, 0], [0, 0], [0, 0]] = Inr y \<and>
    length y = 4 \<and> has_shape (28, 28, 1) (y ! 3) \<and> 0 \<le> y ! 3 ! 27 ! 27 ! 0 \<and> y ! 3 ! 27 ! 27 ! 0 \<le> 1"
proof -
  let ?w = "\<lparr>dec_dense = \<lparr>dense_kernel = \<lambda>i u. 0, dense_bias = \<lambda>u. 0\<rparr>,
       dec_conv_transpose = \<lparr>conv_kernel = \<lambda>i j f c. 0, conv_bias = \<lambda>f. 0\<rparr>,
       dec_conv = \<lparr>conv_kernel = \<lambda>i j c f. 0, conv_bias = \<lambda>f. 0\<rparr>\<rparr>"
  have t: "is_tensor 4 latent_dim [[0, 0], [0, 0], [0, 0], [0, 0]]"
    by (simp add: is_tensor_def latent_dim_def)
  from decoder_shape_and_range [OF t, of ?w] obtain y where
    r: "create_decoder ?w [[0, 0], [0, 0], [0, 0], [0, 0]] = Inr y" and l: "length y = 4" and
    a: "\<forall>img\<in>set y. has_shape image_shape img \<and>
         (\<forall>row\<in>set img. \<forall>px\<in>set row. \<forall>v\<in>set px. 0 \<le> v \<and> v \<le> 1)"
    by blast
  from l have i: "y ! 3 \<in> set y" by simp
  with a have s: "has_shape (28, 28, 1) (y ! 3)"
    and e: "\<forall>row\<in>set (y ! 3). \<forall>px\<in>set row. \<forall>v\<in>set px. 0 \<le> v \<and> v \<le> 1"
    by (simp_all add: image_shape_def del: One_nat_def)
  from s have "y ! 3 ! 27 \<in> set (y ! 3)" "y ! 3 ! 27 ! 27 \<in> set (y ! 3 ! 27)"
    "y ! 3 ! 27 ! 27 ! 0 \<in> set (y ! 3 ! 27 ! 27)"
    by (simp_all add: has_shape_def list_all_length)
  with e have "0 \<le> y ! 3 ! 27 ! 27 ! 0 \<and> y ! 3 ! 27 ! 27 ! 0 \<le> 1" by blast
  with r l s show ?thesis by blast
qed

text \<open>
  C10. The composed graph is shape-consistent: on a batch of images of the shape of the
  encoder's input, both heads of the encoder return a vector of \<open>latent_dim\<close> entries per
  image, the sampler keeps this shape, and the decoder, which takes vectors of \<open>latent_dim\<close>
  entries and no others, accepts the sample. In the decoder the dense layer returns
  \<open>12544 = 14 * 14 * 64\<close> entries, which is what the reshape to \<open>(14, 14, 64)\<close> needs, the
  one transposed convolution with stride 2 turns the \<open>14 * 14\<close> grid into the \<open>28 * 28\<close>
  grid of the images (with 32 channels), and the last convolution, which has one filter,
  returns the shape \<open>(28, 28, 1)\<close>: the reconstruction has the shape of the image.
\<close>

theorem vae_shape_consistent:
  assumes l: "length x = b" and sh: "list_all (has_shape image_shape) x"
  shows "\<exists>t_mean t_log_var t s' t_decoded.
      create_encoder ew x = Inr (t_mean, t_log_var) \<and>
      is_tensor b latent_dim t_mean \<and> is_tensor b latent_dim t_log_var \<and>
      create_sampler (t_mean, t_log_var) s = Inr (t, s') \<and> is_tensor b latent_dim t \<and>
      create_decoder dw t = Inr t_decoded \<and>
      length t_decoded = b \<and> list_all (has_shape image_shape) t_decoded \<and>
      vae (ew, dw) x s = Inr (t_decoded, s') \<and>
      (\<forall>z. length z \<noteq> latent_dim \<longrightarrow> decoder_graph dw z = Inl Shape_Mismatch) \<and>
      (\<forall>z\<in>set t. \<exists>g u y.
          length (Dense 12544 Relu (dec_dense dw) z) = 14 * 14 * 64 \<and>
          Reshape (14, 14, 64) (Dense 12544 Relu (dec_dense dw) z) = Inr g \<and> has_shape (14, 14, 64) g \<and>
          Conv2DTranspose 32 3 2 Relu (dec_conv_transpose dw) g = Inr u \<and> has_shape (28, 28, 32) u \<and>
          Conv2D 1 3 1 Sigmoid (dec_conv dw) u = Inr y \<and> has_shape image_shape y \<and>
          decoder_graph dw z = Inr y)"
proof -
  from create_encoder_heads [OF l sh, of ew] obtain t_mean t_log_var where
    enc: "create_encoder ew x = Inr (t_mean, t_log_var)"
    and m: "is_tensor b latent_dim t_mean" and v: "is_tensor b latent_dim t_log_var"
    by blast
  from sample_tensor [OF m v, of s] obtain t s' where
    smp: "create_sampler (t_mean, t_log_var) s = Inr (t, s')" and t: "is_tensor b latent_dim t"
    by (auto simp: create_sampler_def)
  from create_decoder_images [OF t, of dw] obtain t_decoded where
    dec: "create_decoder dw t = Inr t_decoded" and ld: "length t_decoded = b"
    and sd: "list_all (has_shape image_shape) t_decoded"
    by (auto simp: list_all_iff)
  have run: "vae (ew, dw) x s = Inr (t_decoded, s')"
    by (simp add: vae_def enc smp dec and_then_def)
  have refuse: "\<forall>z. length z \<noteq> latent_dim \<longrightarrow> decoder_graph dw z = Inl Shape_Mismatch"
    by (simp add: decoder_graph_def)
  have steps: "\<exists>g u y.
          length (Dense 12544 Relu (dec_dense dw) z) = 14 * 14 * 64 \<and>
          Reshape (14, 14, 64) (Dense 12544 Relu (dec_dense dw) z) = Inr g \<and> has_shape (14, 14, 64) g \<and>
          Conv2DTranspose 32 3 2 Relu (dec_conv_transpose dw) g = Inr u \<and> has_shape (28, 28, 32) u \<and>
          Conv2D 1 3 1 Sigmoid (dec_conv dw) u = Inr y \<and> has_shape image_shape y \<and>
          decoder_graph dw z = Inr y"
    if "z \<in> set t" for z
  proof -
    from that t have "length z = latent_dim"
      by (simp add: is_tensor_def list_all_iff)
    from decoder_graph_steps [OF this, of dw] show ?thesis
      unfolding image_shape_def .
  qed
  have steps': "\<forall>z\<in>set t. \<exists>g u y.
          length (Dense 12544 Relu (dec_dense dw) z) = 14 * 14 * 64 \<and>
          Reshape (14, 14, 64) (Dense 12544 Relu (dec_dense dw) z) = Inr g \<and> has_shape (14, 14, 64) g \<and>
          Conv2DTranspose 32 3 2 Relu (dec_conv_transpose dw) g = Inr u \<and> has_shape (28, 28, 32) u \<and>
          Conv2D 1 3 1 Sigmoid (dec_conv dw) u = Inr y \<and> has_shape image_shape y \<and>
          decoder_graph dw z = Inr y"
    using steps by (rule ballI)
  show ?thesis
    by (rule exI [of _ t_mean], rule exI [of _ t_log_var], rule exI [of _ t], rule exI [of _ s'],
        rule exI [of _ t_decoded])
      (intro conjI enc m v smp t dec ld sd run refuse steps')
qed

theorem vae_shape_consistent_witness:
  "\<exists>t_decoded s'.
     vae (\<lparr>enc_conv_1 = \<lparr>conv_kernel = \<lambda>i j c f. 0, conv_bias = \<lambda>f. 0\<rparr>,
           enc_conv_2 = \<lparr>conv_kernel = \<lambda>i j c f. 0, conv_bias = \<lambda>f. 0\<rparr>,
           enc_conv_3 = \<lparr>conv_kernel = \<lambda>i j c f. 0, conv_bias = \<lambda>f. 0\<rparr>,
           enc_conv_4 = \<lparr>conv_kernel = \<lambda>i j c f. 0, conv_bias = \<lambda>f. 0\<rparr>,
           enc_dense = \<lparr>dense_kernel = \<lambda>i u. 0, dense_bias = \<lambda>u. 0\<rparr>,
           enc_mean = \<lparr>dense_kernel = \<lambda>i u. 0, dense_bias = \<lambda>u. 0\<rparr>,
           enc_log_var = \<lparr>dense_kernel = \<lambda>i u. 0, dense_bias = \<lambda>u. 0\<rparr>\<rparr>,
          \<lparr>dec_dense = \<lparr>dense_kernel = \<lambda>i u. 0, dense_bias = \<lambda>u. 0\<rparr>,
           dec_conv_transpose = \<lparr>conv_kernel = \<lambda>i j f c. 0, conv_bias = \<lambda>f. 0\<rparr>,
           dec_conv = \<lparr>conv_kernel = \<lambda>i j c f. 0, conv_bias = \<lambda>f. 0\<rparr>\<rparr>)
       [replicate 28 (replicate 28 [0])] \<lparr>draws = real, position = 0\<rparr> = Inr (t_decoded, s') \<and>
     length t_decoded = 1 \<and> has_shape (28, 28, 1) (t_decoded ! 0)"
proof -
  have l: "length [replicate 28 (replicate 28 [0::real])] = 1"
    by simp
  have sh: "list_all (has_shape image_shape) [replicate 28 (replicate 28 [0])]"
    by (simp add: has_shape_def image_shape_def list_all_iff)
  let ?ew = "\<lparr>enc_conv_1 = \<lparr>conv_kernel = \<lambda>i j c f. 0, conv_bias = \<lambda>f. 0\<rparr>,
           enc_conv_2 = \<lparr>conv_kernel = \<lambda>i j c f. 0, conv_bias = \<lambda>f. 0\<rparr>,
           enc_conv_3 = \<lparr>conv_kernel = \<lambda>i j c f. 0, conv_bias = \<lambda>f. 0\<rparr>,
           enc_conv_4 = \<lparr>conv_kernel = \<lambda>i j c f. 0, conv_bias = \<lambda>f. 0\<rparr>,
           enc_dense = \<lparr>dense_kernel = \<lambda>i u. 0, dense_bias = \<lambda>u. 0\<rparr>,
           enc_mean = \<lparr>dense_kernel = \<lambda>i u. 0, dense_bias = \<lambda>u. 0\<rparr>,
           enc_log_var = \<lparr>dense_kernel = \<lambda>i u. 0, dense_bias = \<lambda>u. 0\<rparr>\<rparr>"
  let ?dw = "\<lparr>dec_dense = \<lparr>dense_kernel = \<lambda>i u. 0, dense_bias = \<lambda>u. 0\<rparr>,
           dec_conv_transpose = \<lparr>conv_kernel = \<lambda>i j f c. 0, conv_bias = \<lambda>f. 0\<rparr>,
           dec_conv = \<lparr>conv_kernel = \<lambda>i j c f. 0, conv_bias = \<lambda>f. 0\<rparr>\<rparr>"
  let ?x = "[replicate 28 (replicate 28 [0::real])]"
  let ?s = "\<lparr>draws = real, position = 0\<rparr>"
  from vae_shape_consistent [OF l sh, of ?ew ?s ?dw] obtain t_decoded s' where
    r: "vae (?ew, ?dw) ?x ?s = Inr (t_decoded, s')" and
    n: "length t_decoded = 1" and a: "list_all (has_shape image_shape) t_decoded"
    by (elim exE conjE)
  from n a have "has_shape (28, 28, 1) (t_decoded ! 0)"
    by (simp add: list_all_length image_shape_def del: One_nat_def)
  with r n show ?thesis
    by (intro exI conjI)
qed

end
